theory Spec2Isabelle
  imports Complex_Main "HOL-Library.Signed_Division"
begin

section \<open>The Rasterlite create-copy pipeline (frmts/rasterlite/rasterlitecreatecopy.cpp)\<close>

text \<open>
  The theory embeds the three functions of the file that ingest a raster into a
  tile store: \<open>RasterliteInsertSRID\<close>, \<open>RasterliteCreateTables\<close> and
  \<open>RasterliteCreateCopy\<close>. Every early \<open>return nullptr\<close> of the source is an
  \<open>error\<close> value, the SQLite store behind the dataset handle is an explicit state, and
  what the surrounding libraries answer (option parsing, the tile codec, the pixel reads,
  the progress callback) is a parameter.
\<close>

subsection \<open>C integers\<close>

text \<open>
  A C \<open>int\<close> is an integer in the 32-bit two's complement range. Arithmetic is written
  with the wrap-around of that range: \<open>wrap32\<close> is the identity on the range, and every
  sum, difference and product of the source goes through it. Division truncates towards
  zero (\<open>sdiv\<close>); the source never divides \<open>INT_MIN\<close> by \<open>-1\<close>, and a zero divisor is
  checked where the source divides. Signed overflow is undefined in C++, so what the
  program does beyond the range is not fixed by the source: the properties of the block
  lattice are stated for sizes for which no operation leaves the range.
\<close>

definition INT_MAX :: int where
  "INT_MAX = 2147483647"

definition wrap32 :: "int \<Rightarrow> int" where
  "wrap32 x = (x + 2147483648) mod 4294967296 - 2147483648"

definition add32 :: "int \<Rightarrow> int \<Rightarrow> int" where
  "add32 a b = wrap32 (a + b)"

definition sub32 :: "int \<Rightarrow> int \<Rightarrow> int" where
  "sub32 a b = wrap32 (a - b)"

definition mul32 :: "int \<Rightarrow> int \<Rightarrow> int" where
  "mul32 a b = wrap32 (a * b)"

definition div32 :: "int \<Rightarrow> int \<Rightarrow> int" where
  "div32 a b = wrap32 (a sdiv b)"

subsection \<open>C doubles\<close>

text \<open>
  A finite \<open>double\<close> is the real number it denotes, in the binary64 format: a multiple
  \<open>m * 2 ^ e\<close> with \<open>\<bar>m\<bar> < 2 ^ 53\<close> and \<open>-1074 \<le> e\<close>. A product or a sum of two doubles is
  the exact result rounded to the nearest double, ties to the even multiple
  (\<open>round_double\<close>): the exact result is divided by the spacing of the doubles around it,
  \<open>2 ^ (\<lfloor>log2 \<bar>x\<bar>\<rfloor> - 52)\<close> and at least \<open>2 ^ - 1074\<close>, rounded to an integer and multiplied
  back. The product and the sum of \<open>a + b * c\<close> are rounded one after the other, as on a
  target that evaluates in double precision and does not fuse them. The negation of a
  double and the conversion of an \<open>int\<close> are exact. Infinities, NaN and the sign
  of zero are not values of the model: results are taken to stay below the largest double.
\<close>

function bit_length :: "int \<Rightarrow> int" where
  "bit_length n = (if n \<le> 0 then 0 else bit_length (n div 2) + 1)"
  by pat_completeness auto

termination
  by (relation "measure nat") auto

declare bit_length.simps [simp del]

definition pow2 :: "int \<Rightarrow> real" where
  "pow2 e = (if 0 \<le> e then 2 ^ nat e else 1 / 2 ^ nat (- e))"

text \<open>\<open>\<lfloor>log2 \<bar>x\<bar>\<rfloor>\<close> for \<open>x\<close> other than zero.\<close>

definition ilog2 :: "real \<Rightarrow> int" where
  "ilog2 x =
     (if 1 \<le> \<bar>x\<bar> then bit_length \<lfloor>\<bar>x\<bar>\<rfloor> - 1 else - bit_length (\<lceil>1 / \<bar>x\<bar>\<rceil> - 1))"

text \<open>The nearest integer, the even one of two that are equally near.\<close>

definition rne :: "real \<Rightarrow> int" where
  "rne x =
     (let f = \<lfloor>x\<rfloor>; d = x - of_int f
      in if d < 1 / 2 then f else if 1 / 2 < d then f + 1 else if even f then f else f + 1)"

definition round_double :: "real \<Rightarrow> real" where
  "round_double x =
     (if x = 0 then 0
      else let q = pow2 (max (ilog2 x) (- 1022) - 52) in of_int (rne (x / q)) * q)"

definition dadd :: "real \<Rightarrow> real \<Rightarrow> real" where
  "dadd x y = round_double (x + y)"

definition dmul :: "real \<Rightarrow> real \<Rightarrow> real" where
  "dmul x y = round_double (x * y)"

definition ddiv :: "real \<Rightarrow> real \<Rightarrow> real" where
  "ddiv x y = round_double (x / y)"


subsection \<open>Error classes, failures and strings\<close>

text \<open>The values of \<open>CPLErr\<close> the file names.\<close>

datatype CPLErr = CE_None | CE_Warning | CE_Failure

text \<open>
  One value per \<open>return nullptr\<close> of the file (the text of its \<open>CPLError\<close> call, or
  the call that failed), and \<open>DivisionByZero\<close> for the integer division by a zero block
  size, where the program stops.
\<close>

datatype error =
    ZeroBands
  | UnderlyingDriverNotAllowed
  | CannotLoadTileDriver
  | CannotLoadMemDriver
  | RotationalGeoTransform
  | ExplicitTableNameRequired
  | CannotLoadSQLiteDriver
  | CannotLoadOrCreateDatabase
  | NoSpatialiteSupport
  | CreateSpatialIndexFailed
  | NotSameSRS
  | TablesNotFound
  | DivisionByZero
  | OutOfMemory
  | TileLoopFailed

text \<open>\<open>EQUAL\<close> and \<open>STARTS_WITH_CI\<close> compare ASCII strings without regard to case.\<close>

definition toupper :: "char \<Rightarrow> char" where
  "toupper c =
     (let n = (of_char c :: nat) in if 97 \<le> n \<and> n \<le> 122 then char_of (n - 32) else c)"

definition EQUAL :: "string \<Rightarrow> string \<Rightarrow> bool" where
  "EQUAL a b \<longleftrightarrow> map toupper a = map toupper b"

definition STARTS_WITH_CI :: "string \<Rightarrow> string \<Rightarrow> bool" where
  "STARTS_WITH_CI a b \<longleftrightarrow> length b \<le> length a \<and> EQUAL (take (length b) a) b"

subsection \<open>Library functions taken as parameters\<close>

text \<open>
  The functions of libc, CPL, OSR and the driver manager that the file calls and does not
  define. \<open>CSLTokenizeStringComplex\<close> is the call with the delimiter \<open>","\<close> and both
  flags \<open>FALSE\<close>; \<open>VSIStat\<close> holds when the call returns 0; \<open>GDALGetDriverByName\<close> and
  \<open>VSIMalloc3\<close> hold when the result is not null.
\<close>

record srs =
  OSRGetAuthorityName :: "string option"
  OSRGetAttrValue_PROJCS :: "string option"
  OSRGetAuthorityCode :: "string option"
  OSRExportToProj4 :: "string option"

record cpl =
  atoi :: "string \<Rightarrow> int"
  CPLTestBool :: "string \<Rightarrow> bool"
  CSLTokenizeStringComplex :: "string \<Rightarrow> string list"
  CPLGetBasenameSafe :: "string \<Rightarrow> string"
  VSIStat :: "string \<Rightarrow> bool"
  GDALGetDriverByName :: "string \<Rightarrow> bool"
  OSRNewSpatialReference :: "string \<Rightarrow> srs option"
  VSIMalloc3 :: "int \<Rightarrow> int \<Rightarrow> int \<Rightarrow> bool"

text \<open>
  An option list is read through \<open>CSLFetchNameValue\<close> only: it is the partial map from
  a key to its value.
\<close>

type_synonym options = "string \<Rightarrow> string option"

definition CSLFetchNameValueDef :: "options \<Rightarrow> string \<Rightarrow> string \<Rightarrow> string" where
  "CSLFetchNameValueDef papszOptions pszName pszDefault =
     (case papszOptions pszName of Some v \<Rightarrow> v | None \<Rightarrow> pszDefault)"

text \<open>
  The source dataset \<open>poSrcDS\<close>: its sizes, its geotransform call (the error class and the
  six coefficients), its projection (a null pointer is \<open>None\<close>), its description, the size
  in bits of the data type of band 1, and what \<open>RasterIO\<close> returns for the window
  \<open>(nXOff, nYOff, nXSize, nYSize)\<close>.
\<close>

record src_dataset =
  GetRasterCount :: int
  GetRasterXSize :: int
  GetRasterYSize :: int
  GetGeoTransform :: "CPLErr \<times> real list"
  GetProjectionRef :: "string option"
  GetDescription :: string
  GDALGetDataTypeSize :: int
  RasterIO :: "int \<Rightarrow> int \<Rightarrow> int \<Rightarrow> int \<Rightarrow> CPLErr"

subsection \<open>The store\<close>

type_synonym blob = "nat list"

record raster_row =
  raster_id :: int
  raster :: blob

record metadata_row =
  row_id :: int
  source_name :: string
  tile_id :: int
  width :: int
  height :: int
  pixel_x_size :: real
  pixel_y_size :: real
  geometry :: "(real \<times> real) list"

datatype row = RasterRow raster_row | MetadataRow metadata_row

record srs_row =
  srid :: int
  auth_name :: string
  auth_srid :: int
  ref_sys_name :: "string option"
  proj4text :: string

text \<open>
  Modelled from the spec: the SQL store behind \<open>GDALDatasetH\<close> (the OGR SQLite driver,
  which is not in the file). It holds the tables by name with their rows in insertion
  order, the \<open>geometry_columns\<close> table as the SRID bound to a table's geometry column,
  the \<open>spatial_ref_sys\<close> registry, and the tables as they were at \<open>BEGIN\<close> while a
  transaction is open. Closing and reopening the store succeeds and keeps its contents.
\<close>

record store =
  layers :: "string \<Rightarrow> row list option"
  geometry_columns :: "string \<Rightarrow> int option"
  spatial_ref_sys :: "srs_row list"
  journal :: "(string \<Rightarrow> row list option) option"

text \<open>
  Modelled from the spec: what the driver answers. A \<open>SELECT\<close> gives a result layer or
  null; the file tells a null layer from a layer without a feature, so which of the two
  a \<open>SELECT\<close> without a matching row gives is the parameter \<open>empty_select\<close>.
  \<open>AddGeometryColumn\<close> and \<open>CreateSpatialIndex\<close> hold when the statement gives a
  result layer. \<open>CreateFeature_raster\<close> is \<open>OGR_L_CreateFeature\<close> on the raster table:
  from the rows of the table and the blob, the FID the feature holds afterwards, or
  \<open>None\<close> when the call does not return \<open>OGRERR_NONE\<close>. \<open>CreateFeature_metadata\<close>
  holds when the call on the metadata table returns \<open>OGRERR_NONE\<close>.
\<close>

datatype empty_result = NullLayer | EmptyLayer

record sqlite =
  empty_select :: empty_result
  AddGeometryColumn :: bool
  CreateSpatialIndex :: bool
  CreateFeature_raster :: "row list \<Rightarrow> blob \<Rightarrow> int option"
  CreateFeature_metadata :: "row list \<Rightarrow> metadata_row \<Rightarrow> bool"

text \<open>
  Modelled from the spec: the statements the file sends through \<open>GDALDatasetExecuteSQL\<close>
  and the calls of \<open>GDALDatasetGetLayerByName\<close> and \<open>OGR_L_CreateFeature\<close>, as the store
  answers them. A layer is found when a table of that name exists. \<open>CREATE TABLE\<close> adds
  an empty table unless one of that name exists; \<open>AddGeometryColumn\<close> binds the SRID;
  \<open>UPDATE geometry_columns\<close> rebinds it where a binding exists; \<open>DELETE FROM\<close> empties an
  existing table; \<open>BEGIN\<close> saves the tables, \<open>COMMIT\<close> forgets the saved tables and
  \<open>ROLLBACK\<close> restores them. An insert appends the row to an existing table when the
  driver accepts it, and fails on a missing table.
\<close>

definition GDALDatasetGetLayerByName :: "store \<Rightarrow> string \<Rightarrow> row list option" where
  "GDALDatasetGetLayerByName hDS pszName = layers hDS pszName"

definition ExecuteSQL_select :: "sqlite \<Rightarrow> int list \<Rightarrow> int list option" where
  "ExecuteSQL_select drv matching =
     (if matching = [] \<and> empty_select drv = NullLayer then None else Some matching)"

definition sql_create_table :: "string \<Rightarrow> store \<Rightarrow> store" where
  "sql_create_table name hDS =
     (case layers hDS name of
        None \<Rightarrow> hDS\<lparr>layers := (layers hDS)(name \<mapsto> [])\<rparr>
      | Some _ \<Rightarrow> hDS)"

definition sql_add_geometry_column :: "string \<Rightarrow> int \<Rightarrow> store \<Rightarrow> store" where
  "sql_add_geometry_column name nSRSId hDS =
     hDS\<lparr>geometry_columns := (geometry_columns hDS)(name \<mapsto> nSRSId)\<rparr>"

definition sql_update_srid :: "string \<Rightarrow> int \<Rightarrow> store \<Rightarrow> store" where
  "sql_update_srid name nSRSId hDS =
     (case geometry_columns hDS name of
        None \<Rightarrow> hDS
      | Some _ \<Rightarrow> hDS\<lparr>geometry_columns := (geometry_columns hDS)(name \<mapsto> nSRSId)\<rparr>)"

definition sql_delete_from :: "string \<Rightarrow> store \<Rightarrow> store" where
  "sql_delete_from name hDS =
     (case layers hDS name of
        None \<Rightarrow> hDS
      | Some _ \<Rightarrow> hDS\<lparr>layers := (layers hDS)(name \<mapsto> [])\<rparr>)"

definition sql_insert_srs :: "srs_row \<Rightarrow> store \<Rightarrow> store" where
  "sql_insert_srs r hDS = hDS\<lparr>spatial_ref_sys := spatial_ref_sys hDS @ [r]\<rparr>"

definition sql_begin :: "store \<Rightarrow> store" where
  "sql_begin hDS = hDS\<lparr>journal := Some (layers hDS)\<rparr>"

definition sql_commit :: "store \<Rightarrow> store" where
  "sql_commit hDS = hDS\<lparr>journal := None\<rparr>"

definition sql_rollback :: "store \<Rightarrow> store" where
  "sql_rollback hDS =
     (case journal hDS of
        None \<Rightarrow> hDS
      | Some saved \<Rightarrow> hDS\<lparr>layers := saved, journal := None\<rparr>)"

definition insert_raster :: "sqlite \<Rightarrow> string \<Rightarrow> blob \<Rightarrow> store \<Rightarrow> (int \<times> store) option" where
  "insert_raster drv name pabyData hDS =
     (case layers hDS name of
        None \<Rightarrow> None
      | Some rows \<Rightarrow>
         (case CreateFeature_raster drv rows pabyData of
            None \<Rightarrow> None
          | Some fid \<Rightarrow>
              Some (fid, hDS\<lparr>layers := (layers hDS)
                      (name \<mapsto> rows @ [RasterRow \<lparr>raster_id = fid, raster = pabyData\<rparr>])\<rparr>)))"

definition insert_metadata :: "sqlite \<Rightarrow> string \<Rightarrow> metadata_row \<Rightarrow> store \<Rightarrow> store option" where
  "insert_metadata drv name hFeat hDS =
     (case layers hDS name of
        None \<Rightarrow> None
      | Some rows \<Rightarrow>
         (if CreateFeature_metadata drv rows hFeat
          then Some (hDS\<lparr>layers := (layers hDS)(name \<mapsto> rows @ [MetadataRow hFeat])\<rparr>)
          else None))"

subsection \<open>RasterliteInsertSRID\<close>

text \<open>
  Lines 88-164. The authority code and name are read from the WKT when it is neither
  null nor empty and \<open>OSRNewSpatialReference\<close> gives a handle; a failed
  \<open>OSRExportToProj4\<close> leaves the empty string. The function returns the SRID and the
  store after the statements it ran.
\<close>

definition srs_fields :: "cpl \<Rightarrow> string option \<Rightarrow> int \<times> string \<times> string \<times> string" where
  "srs_fields lib pszWKT =
     (case pszWKT of
        None \<Rightarrow> (0, [], [], [])
      | Some wkt \<Rightarrow>
          if wkt = [] then (0, [], [], [])
          else
            (case OSRNewSpatialReference lib wkt of
               None \<Rightarrow> (0, [], [], [])
             | Some hSRS \<Rightarrow>
                 ((case OSRGetAuthorityCode hSRS of None \<Rightarrow> 0 | Some c \<Rightarrow> atoi lib c),
                  (case OSRGetAuthorityName hSRS of None \<Rightarrow> [] | Some n \<Rightarrow> n),
                  (case OSRGetAttrValue_PROJCS hSRS of None \<Rightarrow> [] | Some p \<Rightarrow> p),
                  (case OSRExportToProj4 hSRS of None \<Rightarrow> [] | Some p \<Rightarrow> p))))"

definition RasterliteInsertSRID ::
  "cpl \<Rightarrow> sqlite \<Rightarrow> store \<Rightarrow> string option \<Rightarrow> int \<times> store" where
  "RasterliteInsertSRID lib drv hDS pszWKT =
     (case srs_fields lib pszWKT of
        (nAuthorityCode, osAuthorityName, osProjCS, osProj4) \<Rightarrow>
          if nAuthorityCode \<noteq> 0 \<and> osAuthorityName \<noteq> [] then
            (case ExecuteSQL_select drv
                    (map srid (filter (\<lambda>r. auth_srid r = nAuthorityCode) (spatial_ref_sys hDS))) of
               None \<Rightarrow>
                 (nAuthorityCode,
                  sql_insert_srs
                    \<lparr>srid = nAuthorityCode, auth_name = osAuthorityName,
                     auth_srid = nAuthorityCode,
                     ref_sys_name = (if osProjCS \<noteq> [] then Some osProjCS else None),
                     proj4text = osProj4\<rparr> hDS)
             | Some [] \<Rightarrow> (- 1, hDS)
             | Some (nSRSId # _) \<Rightarrow> (nSRSId, hDS))
          else (- 1, hDS))"

subsection \<open>RasterliteCreateTables\<close>

text \<open>
  Lines 170-304. \<open>None\<close> is the return of the handle, \<open>Some e\<close> the return of
  \<open>nullptr\<close> after the error \<open>e\<close>; the store is returned as the statements left it.
  \<open>UpdateLayerStatistics\<close> changes no table of the model.
\<close>

definition wipe_existing :: "bool \<Rightarrow> string \<Rightarrow> string \<Rightarrow> store \<Rightarrow> store" where
  "wipe_existing bWipeExistingData osRasterLayer osMetadataLayer hDS =
     (if bWipeExistingData
      then sql_delete_from osMetadataLayer (sql_delete_from osRasterLayer hDS)
      else hDS)"

definition RasterliteCreateTables ::
  "sqlite \<Rightarrow> store \<Rightarrow> string \<Rightarrow> int \<Rightarrow> bool \<Rightarrow> error option \<times> store" where
  "RasterliteCreateTables drv hDS pszTableName nSRSId bWipeExistingData =
     (let osRasterLayer = pszTableName @ ''_rasters'';
          osMetadataLayer = pszTableName @ ''_metadata''
      in if GDALDatasetGetLayerByName hDS osRasterLayer = None then
           (let hDS1 = sql_create_table osMetadataLayer (sql_create_table osRasterLayer hDS)
            in if \<not> AddGeometryColumn drv then (Some NoSpatialiteSupport, hDS1)
               else
                 (let hDS2 = sql_add_geometry_column osMetadataLayer nSRSId hDS1
                  in if \<not> CreateSpatialIndex drv then (Some CreateSpatialIndexFailed, hDS2)
                     else (None, hDS2)))
         else
           (case ExecuteSQL_select drv
                   (case geometry_columns hDS osMetadataLayer of None \<Rightarrow> [] | Some s \<Rightarrow> [s]) of
              None \<Rightarrow> (None, wipe_existing bWipeExistingData osRasterLayer osMetadataLayer hDS)
            | Some feats \<Rightarrow>
                (let nExistingSRID = (case feats of [] \<Rightarrow> - 1 | f # _ \<Rightarrow> f)
                 in if nExistingSRID \<noteq> nSRSId then
                      (if bWipeExistingData then
                         (None, wipe_existing bWipeExistingData osRasterLayer osMetadataLayer
                                  (sql_update_srid osMetadataLayer nSRSId hDS))
                       else (Some NotSameSRS, hDS))
                    else
                      (None, wipe_existing bWipeExistingData osRasterLayer osMetadataLayer hDS))))"

subsection \<open>RasterliteCreateCopy: the checks before the store is opened\<close>

text \<open>Lines 350-365: the geotransform, its default, and the refusal of rotation terms.\<close>

definition resolve_geotransform :: "CPLErr \<times> real list \<Rightarrow> error + real list" where
  "resolve_geotransform r =
     (if fst r \<noteq> CE_None then Inr [0, 1, 0, 0, 0, - 1]
      else if snd r ! 2 \<noteq> 0 \<or> snd r ! 4 \<noteq> 0 then Inl RotationalGeoTransform
      else Inr (snd r))"

text \<open>Lines 367-389: the block size.\<close>

definition clamp_block :: "int \<Rightarrow> int" where
  "clamp_block n = (if n < 64 then 64 else if n > 4096 then 4096 else n)"

definition block_size :: "cpl \<Rightarrow> options \<Rightarrow> int \<Rightarrow> int \<Rightarrow> int \<times> int" where
  "block_size lib papszOptions nXSize nYSize =
     (if CPLTestBool lib (CSLFetchNameValueDef papszOptions ''TILED'' ''YES'') then
        (clamp_block (atoi lib (CSLFetchNameValueDef papszOptions ''BLOCKXSIZE'' ''256'')),
         clamp_block (atoi lib (CSLFetchNameValueDef papszOptions ''BLOCKYSIZE'' ''256'')))
      else (nXSize, nYSize))"

text \<open>
  Lines 395-443: the target specifier. \<open>table_tokens\<close> is the loop over the tokens after
  the first (a later \<open>table=\<close> token replaces an earlier one; the warnings for other
  tokens change nothing). The result is the store path, the table name and whether the
  store file exists.
\<close>

fun table_tokens :: "string list \<Rightarrow> string \<Rightarrow> string" where
  "table_tokens [] osTableName = osTableName"
| "table_tokens (t # ts) osTableName =
     table_tokens ts (if STARTS_WITH_CI t ''table='' then drop 6 t else osTableName)"

definition analyze_arguments :: "cpl \<Rightarrow> string \<Rightarrow> error + (string \<times> string \<times> bool)" where
  "analyze_arguments lib pszFilename =
     (let pszFilenameWithoutPrefix =
            (if STARTS_WITH_CI pszFilename ''RASTERLITE:'' then drop 11 pszFilename
             else pszFilename);
          names =
            (case CSLTokenizeStringComplex lib pszFilenameWithoutPrefix of
               [] \<Rightarrow> (pszFilenameWithoutPrefix, CPLGetBasenameSafe lib pszFilenameWithoutPrefix)
             | t # ts \<Rightarrow> (t, table_tokens ts []));
          osDBName = fst names;
          osTableName = snd names;
          bExists = VSIStat lib osDBName
      in if osTableName = [] then
           (if bExists then Inl ExplicitTableNameRequired
            else Inr (osDBName, CPLGetBasenameSafe lib osDBName, bExists))
         else Inr (osDBName, osTableName, bExists))"

subsection \<open>RasterliteCreateCopy: the loop over the blocks\<close>

text \<open>
  What the loop of lines 556-700 reads and never changes: the source dataset, the driver
  of the store, the tile codec (\<open>GDALCreateCopy\<close> on the in-memory dataset of a window:
  the encoded bytes, or \<open>None\<close> for a null \<open>hOutDS\<close>), the progress callback (\<open>None\<close> for
  a null pointer; it holds when the callback returns non-zero), the sizes, the
  geotransform and the names of the two tables.
\<close>

record job =
  poSrcDS :: src_dataset
  driver :: sqlite
  GDALCreateCopy :: "int \<Rightarrow> int \<Rightarrow> int \<Rightarrow> int \<Rightarrow> blob option"
  pfnProgress :: "(real \<Rightarrow> bool) option"
  nXSize :: int
  nYSize :: int
  nBlockXSize :: int
  nBlockYSize :: int
  adfGeoTransform :: "real list"
  osRasterLayer :: string
  osMetadataLayer :: string

text \<open>What the loop changes: the store, the two counters and the error class.\<close>

record loop_state =
  hDS :: store
  nTileId :: int
  nBlocks :: int
  eErr :: CPLErr

text \<open>Lines 556-557 and 574.\<close>

definition block_count :: "int \<Rightarrow> int \<Rightarrow> int" where
  "block_count nSize nBlockSize = div32 (sub32 (add32 nSize nBlockSize) 1) nBlockSize"

definition nXBlocks :: "job \<Rightarrow> int" where
  "nXBlocks j = block_count (nXSize j) (nBlockXSize j)"

definition nYBlocks :: "job \<Rightarrow> int" where
  "nYBlocks j = block_count (nYSize j) (nBlockYSize j)"

definition nTotalBlocks :: "job \<Rightarrow> int" where
  "nTotalBlocks j = mul32 (nXBlocks j) (nYBlocks j)"

text \<open>Lines 593-598: the extent of a block, clipped at the edge of the raster.\<close>

definition nReqSize :: "int \<Rightarrow> int \<Rightarrow> int \<Rightarrow> int" where
  "nReqSize nSize nBlockSize nBlockOff =
     (if mul32 (add32 nBlockOff 1) nBlockSize > nSize
      then sub32 nSize (mul32 nBlockOff nBlockSize)
      else nBlockSize)"

text \<open>
  Lines 662-689: the feature of the metadata table. The offsets in pixels are \<open>int\<close>
  products and sums; each is converted to \<open>double\<close>, multiplied by the pixel size and added
  to the origin, in double arithmetic. The ring has the five points of lines 682-686.
\<close>

definition rectangle :: "real \<Rightarrow> real \<Rightarrow> real \<Rightarrow> real \<Rightarrow> (real \<times> real) list" where
  "rectangle minx miny maxx maxy =
     [(minx, miny), (minx, maxy), (maxx, maxy), (maxx, miny), (minx, miny)]"

definition metadata_feature :: "job \<Rightarrow> int \<Rightarrow> int \<Rightarrow> int \<Rightarrow> int \<Rightarrow> metadata_row" where
  "metadata_feature j nBlockXOff nBlockYOff nRasterID nTileId' =
     (let nReqXSize = nReqSize (nXSize j) (nBlockXSize j) nBlockXOff;
          nReqYSize = nReqSize (nYSize j) (nBlockYSize j) nBlockYOff;
          minx = dadd (adfGeoTransform j ! 0)
                   (dmul (of_int (mul32 (nBlockXSize j) nBlockXOff)) (adfGeoTransform j ! 1));
          maxx = dadd (adfGeoTransform j ! 0)
                   (dmul (of_int (add32 (mul32 (nBlockXSize j) nBlockXOff) nReqXSize))
                      (adfGeoTransform j ! 1));
          maxy = dadd (adfGeoTransform j ! 3)
                   (dmul (of_int (mul32 (nBlockYSize j) nBlockYOff)) (adfGeoTransform j ! 5));
          miny = dadd (adfGeoTransform j ! 3)
                   (dmul (of_int (add32 (mul32 (nBlockYSize j) nBlockYOff) nReqYSize))
                      (adfGeoTransform j ! 5))
      in \<lparr>row_id = nRasterID,
          source_name = GetDescription (poSrcDS j),
          tile_id = nTileId',
          width = nReqXSize,
          height = nReqYSize,
          pixel_x_size = adfGeoTransform j ! 1,
          pixel_y_size = - (adfGeoTransform j ! 5),
          geometry = rectangle minx miny maxx maxy\<rparr>)"

text \<open>
  Lines 665-698, after the raster row is in: the metadata row (the FID of the raster row
  cast to \<open>int\<close>, the tile number before its increment), the count of blocks, the
  progress callback, whose ratio is computed in double arithmetic.
\<close>

definition persist_metadata :: "job \<Rightarrow> int \<Rightarrow> int \<Rightarrow> int \<Rightarrow> store \<Rightarrow> loop_state \<Rightarrow> loop_state" where
  "persist_metadata j nBlockXOff nBlockYOff fid hDS1 s =
     (let hFeat = metadata_feature j nBlockXOff nBlockYOff (wrap32 fid) (nTileId s);
          inserted = insert_metadata (driver j) (osMetadataLayer j) hFeat hDS1;
          hDS2 = (case inserted of None \<Rightarrow> hDS1 | Some h \<Rightarrow> h);
          eErr1 = (case inserted of None \<Rightarrow> CE_Failure | Some _ \<Rightarrow> CE_None);
          nBlocks1 = add32 (nBlocks s) 1;
          eErr2 =
            (case pfnProgress j of
               None \<Rightarrow> eErr1
             | Some f \<Rightarrow>
                 if \<not> f (ddiv (dmul 1.0 (of_int nBlocks1)) (of_int (nTotalBlocks j)))
                 then CE_Failure
                 else eErr1)
      in \<lparr>hDS = hDS2, nTileId = add32 (nTileId s) 1, nBlocks = nBlocks1, eErr = eErr2\<rparr>)"

text \<open>
  Lines 587-699: one block. Every \<open>break\<close> of the source leaves with an error class
  other than \<open>CE_None\<close>, which ends both loops.
\<close>

definition tile_body :: "job \<Rightarrow> int \<Rightarrow> int \<Rightarrow> loop_state \<Rightarrow> loop_state" where
  "tile_body j nBlockXOff nBlockYOff s =
     (let nReqXSize = nReqSize (nXSize j) (nBlockXSize j) nBlockXOff;
          nReqYSize = nReqSize (nYSize j) (nBlockYSize j) nBlockYOff;
          nXOff = mul32 nBlockXOff (nBlockXSize j);
          nYOff = mul32 nBlockYOff (nBlockYSize j);
          e = RasterIO (poSrcDS j) nXOff nYOff nReqXSize nReqYSize
      in if e \<noteq> CE_None then s\<lparr>eErr := e\<rparr>
         else
           (case GDALCreateCopy j nXOff nYOff nReqXSize nReqYSize of
              None \<Rightarrow> s\<lparr>eErr := CE_Failure\<rparr>
            | Some pabyData \<Rightarrow>
                (case insert_raster (driver j) (osRasterLayer j) pabyData (hDS s) of
                   None \<Rightarrow> s\<lparr>eErr := CE_Failure\<rparr>
                 | Some (fid, hDS1) \<Rightarrow> persist_metadata j nBlockXOff nBlockYOff fid hDS1 s)))"

lemma wrap32_less: "wrap32 x < 2147483648"
  using pos_mod_bound [of 4294967296 "x + 2147483648"] by (simp add: wrap32_def)

lemma wrap32_ge: "- 2147483648 \<le> wrap32 x"
  using pos_mod_sign [of 4294967296 "x + 2147483648"] by (simp add: wrap32_def)

lemma wrap32_succ_greater: "x < wrap32 y \<Longrightarrow> x < wrap32 (x + 1)"
proof -
  assume a: "x < wrap32 y"
  have b: "x < 2147483647" using a wrap32_less [of y] by linarith
  show ?thesis
  proof (cases "- 2147483649 \<le> x")
    case True
    then have "wrap32 (x + 1) = x + 1" using b by (simp add: wrap32_def)
    then show ?thesis by simp
  next
    case False
    then show ?thesis using wrap32_ge [of "x + 1"] by linarith
  qed
qed

text \<open>Lines 585-586 and 582-583: the two \<open>for\<close> loops.\<close>

function loop_x :: "job \<Rightarrow> int \<Rightarrow> int \<Rightarrow> loop_state \<Rightarrow> loop_state" where
  "loop_x j nBlockYOff nBlockXOff s =
     (if eErr s = CE_None \<and> nBlockXOff < nXBlocks j
      then loop_x j nBlockYOff (add32 nBlockXOff 1) (tile_body j nBlockXOff nBlockYOff s)
      else s)"
  by pat_completeness auto
termination
proof (relation "measure (\<lambda>(j, nBlockYOff, nBlockXOff, s). nat (nXBlocks j - nBlockXOff))")
  show "wf (measure (\<lambda>(j, nBlockYOff, nBlockXOff, s). nat (nXBlocks j - nBlockXOff)))"
    by simp
next
  fix j :: job and nBlockYOff nBlockXOff :: int and s :: loop_state
  assume "eErr s = CE_None \<and> nBlockXOff < nXBlocks j"
  then have "nBlockXOff < wrap32 (nBlockXOff + 1)"
    unfolding nXBlocks_def block_count_def div32_def by (auto intro: wrap32_succ_greater)
  then show "((j, nBlockYOff, add32 nBlockXOff 1, tile_body j nBlockXOff nBlockYOff s),
              (j, nBlockYOff, nBlockXOff, s))
             \<in> measure (\<lambda>(j, nBlockYOff, nBlockXOff, s). nat (nXBlocks j - nBlockXOff))"
    using \<open>eErr s = CE_None \<and> nBlockXOff < nXBlocks j\<close> by (simp add: add32_def)
qed

function loop_y :: "job \<Rightarrow> int \<Rightarrow> loop_state \<Rightarrow> loop_state" where
  "loop_y j nBlockYOff s =
     (if eErr s = CE_None \<and> nBlockYOff < nYBlocks j
      then loop_y j (add32 nBlockYOff 1) (loop_x j nBlockYOff 0 s)
      else s)"
  by pat_completeness auto
termination
proof (relation "measure (\<lambda>(j, nBlockYOff, s). nat (nYBlocks j - nBlockYOff))")
  show "wf (measure (\<lambda>(j, nBlockYOff, s). nat (nYBlocks j - nBlockYOff)))"
    by simp
next
  fix j :: job and nBlockYOff :: int and s :: loop_state
  assume a: "eErr s = CE_None \<and> nBlockYOff < nYBlocks j"
  then have "nBlockYOff < wrap32 (nBlockYOff + 1)"
    unfolding nYBlocks_def block_count_def div32_def by (auto intro: wrap32_succ_greater)
  then show "((j, add32 nBlockYOff 1, loop_x j nBlockYOff 0 s), (j, nBlockYOff, s))
             \<in> measure (\<lambda>(j, nBlockYOff, s). nat (nYBlocks j - nBlockYOff))"
    using a by (simp add: add32_def)
qed

declare loop_x.simps [simp del] loop_y.simps [simp del]

text \<open>
  Lines 572-719: \<open>BEGIN\<close>, the loops, \<open>COMMIT\<close> or \<open>ROLLBACK\<close>, and the return value:
  \<open>nullptr\<close> when the error class is \<open>CE_Failure\<close>, the dataset that
  \<open>GDALOpen(pszFilename, GA_Update)\<close> opens otherwise.
\<close>

datatype dataset = GDALOpen string

definition run_loops :: "job \<Rightarrow> store \<Rightarrow> loop_state" where
  "run_loops j hDS0 =
     loop_y j 0 \<lparr>hDS = sql_begin hDS0, nTileId = 0, nBlocks = 0, eErr = CE_None\<rparr>"

definition tile_loop :: "job \<Rightarrow> string \<Rightarrow> store \<Rightarrow> (error + dataset) \<times> store" where
  "tile_loop j pszFilename hDS0 =
     (let s = run_loops j hDS0;
          hDS1 = (if eErr s = CE_None then sql_commit (hDS s) else sql_rollback (hDS s))
      in (if eErr s = CE_Failure then Inl TileLoopFailed else Inr (GDALOpen pszFilename), hDS1))"

subsection \<open>The loops as one pass over the blocks\<close>

text \<open>
  The two loops visit the blocks row by row: \<open>blocks\<close> lists the pairs
  \<open>(nBlockYOff, nBlockXOff)\<close> in that order, \<open>block_step\<close> is the body under the
  loop conditions on the error class, and \<open>feature_rows\<close> lists the metadata features
  of the first blocks of a list, given the raster identifiers, numbered from \<open>n\<close> as
  \<open>nTileId\<close> counts.
\<close>

definition block_step :: "job \<Rightarrow> int \<times> int \<Rightarrow> loop_state \<Rightarrow> loop_state" where
  "block_step j p s = (if eErr s = CE_None then tile_body j (snd p) (fst p) s else s)"

definition blocks :: "job \<Rightarrow> (int \<times> int) list" where
  "blocks j = List.product [0..nYBlocks j - 1] [0..nXBlocks j - 1]"

fun feature_rows :: "job \<Rightarrow> int \<Rightarrow> (int \<times> int) list \<Rightarrow> int list \<Rightarrow> metadata_row list" where
  "feature_rows j n (p # ps) (f # fs) =
     metadata_feature j (snd p) (fst p) f n # feature_rows j (add32 n 1) ps fs"
| "feature_rows j n ps fs = []"

subsection \<open>RasterliteCreateCopy\<close>

text \<open>
  The calls that open a store: \<open>GDALCreate\<close> with \<open>SPATIALITE=YES\<close> for a path without
  a file, \<open>RasterliteOpenSQLiteDB\<close> in update mode for an existing one; \<open>None\<close> is a null
  handle.
\<close>

record world =
  lib :: cpl
  sqlite_driver :: sqlite
  tile_codec :: "int \<Rightarrow> int \<Rightarrow> int \<Rightarrow> int \<Rightarrow> blob option"
  GDALCreate :: "string \<Rightarrow> store option"
  RasterliteOpenSQLiteDB :: "string \<Rightarrow> store option"

text \<open>
  Lines 483-719, with the store open. The overlap check of lines 516-551 reads the store
  and warns; it changes neither the store nor the result. The result is the return value
  and the store as the run left it.
\<close>

definition ingest ::
  "world \<Rightarrow> string \<Rightarrow> src_dataset \<Rightarrow> options \<Rightarrow> (real \<Rightarrow> bool) option \<Rightarrow> real list \<Rightarrow>
   int \<Rightarrow> int \<Rightarrow> string \<Rightarrow> store \<Rightarrow> (error + dataset) \<times> store" where
  "ingest w pszFilename src papszOptions progress gt nBlockX nBlockY osTableName hDS0 =
     (case RasterliteInsertSRID (lib w) (sqlite_driver w) hDS0 (GetProjectionRef src) of
        (nSRSId, hDS1) \<Rightarrow>
          (case RasterliteCreateTables (sqlite_driver w) hDS1 osTableName nSRSId
                  (CPLTestBool (lib w) (CSLFetchNameValueDef papszOptions ''WIPE'' ''NO'')) of
             (Some e, hDS2) \<Rightarrow> (Inl e, hDS2)
           | (None, hDS2) \<Rightarrow>
               if GDALDatasetGetLayerByName hDS2 (osTableName @ ''_rasters'') = None \<or>
                  GDALDatasetGetLayerByName hDS2 (osTableName @ ''_metadata'') = None
               then (Inl TablesNotFound, hDS2)
               else if nBlockX = 0 \<or> nBlockY = 0 then (Inl DivisionByZero, hDS2)
               else if \<not> VSIMalloc3 (lib w) nBlockX nBlockY
                           (mul32 (GetRasterCount src) (div32 (GDALGetDataTypeSize src) 8))
               then (Inl OutOfMemory, hDS2)
               else
                 tile_loop
                   \<lparr>poSrcDS = src, driver = sqlite_driver w, GDALCreateCopy = tile_codec w,
                    pfnProgress = progress,
                    nXSize = GetRasterXSize src, nYSize = GetRasterYSize src,
                    nBlockXSize = nBlockX, nBlockYSize = nBlockY,
                    adfGeoTransform = gt,
                    osRasterLayer = osTableName @ ''_rasters'',
                    osMetadataLayer = osTableName @ ''_metadata''\<rparr>
                   pszFilename hDS2))"

text \<open>
  Lines 310-481, then \<open>ingest\<close>. The second component is the store the call opened and
  how it left it, \<open>None\<close> when it returned before opening one.
\<close>

definition RasterliteCreateCopy ::
  "world \<Rightarrow> string \<Rightarrow> src_dataset \<Rightarrow> options \<Rightarrow> (real \<Rightarrow> bool) option \<Rightarrow>
   (error + dataset) \<times> store option" where
  "RasterliteCreateCopy w pszFilename src papszOptions progress =
     (if GetRasterCount src = 0 then (Inl ZeroBands, None)
      else if EQUAL (CSLFetchNameValueDef papszOptions ''DRIVER'' ''GTiff'') ''MEM'' \<or>
              EQUAL (CSLFetchNameValueDef papszOptions ''DRIVER'' ''GTiff'') ''VRT''
      then (Inl UnderlyingDriverNotAllowed, None)
      else if \<not> GDALGetDriverByName (lib w) (CSLFetchNameValueDef papszOptions ''DRIVER'' ''GTiff'')
      then (Inl CannotLoadTileDriver, None)
      else if \<not> GDALGetDriverByName (lib w) ''MEM'' then (Inl CannotLoadMemDriver, None)
      else
        (case resolve_geotransform (GetGeoTransform src) of
           Inl e \<Rightarrow> (Inl e, None)
         | Inr gt \<Rightarrow>
             (case block_size (lib w) papszOptions (GetRasterXSize src) (GetRasterYSize src) of
                (nBlockX, nBlockY) \<Rightarrow>
                  (case analyze_arguments (lib w) pszFilename of
                     Inl e \<Rightarrow> (Inl e, None)
                   | Inr (osDBName, osTableName, bExists) \<Rightarrow>
                       if \<not> GDALGetDriverByName (lib w) ''SQLite''
                       then (Inl CannotLoadSQLiteDriver, None)
                       else
                         (case (if \<not> bExists then GDALCreate w osDBName
                                else RasterliteOpenSQLiteDB w osDBName) of
                            None \<Rightarrow> (Inl CannotLoadOrCreateDatabase, None)
                          | Some hDS0 \<Rightarrow>
                              (case ingest w pszFilename src papszOptions progress gt
                                      nBlockX nBlockY osTableName hDS0 of
                                 (r, hDS1) \<Rightarrow> (r, Some hDS1)))))))"

section \<open>Inputs for the examples\<close>

text \<open>
  Concrete library functions, stores and sources, used where a property is shown at an
  input: a tokenizer that splits at commas and drops empty tokens, a base name without
  directory and extension, a decimal \<open>atoi\<close>, a driver whose inserts succeed, the raster of
  600 by 600 pixels of the spec's scenario, a store left by an earlier run, a store
  with a raster table and no metadata table, and the doubles nearest to 0.1 and 0.3.
\<close>

fun tokens_of :: "string \<Rightarrow> string \<Rightarrow> string list" where
  "tokens_of acc [] = (if acc = [] then [] else [acc])"
| "tokens_of acc (c # cs) =
     (if c = CHR '','' then (if acc = [] then tokens_of [] cs else acc # tokens_of [] cs)
      else tokens_of (acc @ [c]) cs)"

definition basename_of :: "string \<Rightarrow> string" where
  "basename_of s =
     (let f = rev (takeWhile (\<lambda>c. c \<noteq> CHR ''/'') (rev s))
      in if CHR ''.'' \<in> set f then rev (tl (dropWhile (\<lambda>c. c \<noteq> CHR ''.'') (rev f))) else f)"

fun digits_of :: "int \<Rightarrow> string \<Rightarrow> int" where
  "digits_of acc [] = acc"
| "digits_of acc (c # cs) =
     (if 48 \<le> (of_char c :: nat) \<and> (of_char c :: nat) \<le> 57
      then digits_of (10 * acc + int (of_char c) - 48) cs else acc)"

definition demo_cpl :: cpl where
  "demo_cpl =
     \<lparr>atoi = digits_of 0,
      CPLTestBool = (\<lambda>s. \<not> (EQUAL s ''NO'' \<or> EQUAL s ''FALSE'' \<or> EQUAL s ''OFF'' \<or> EQUAL s ''0'')),
      CSLTokenizeStringComplex = tokens_of [],
      CPLGetBasenameSafe = basename_of,
      VSIStat = (\<lambda>p. p = ''old.sqlite'' \<or> p = ''orphan.sqlite''),
      GDALGetDriverByName = (\<lambda>n. True),
      OSRNewSpatialReference =
        (\<lambda>wkt. if wkt = ''EPSG:4326''
               then Some \<lparr>OSRGetAuthorityName = Some ''EPSG'', OSRGetAttrValue_PROJCS = None,
                          OSRGetAuthorityCode = Some ''4326'',
                          OSRExportToProj4 = Some ''+proj=longlat''\<rparr>
               else None),
      VSIMalloc3 = (\<lambda>x y z. True)\<rparr>"

definition ok_driver :: sqlite where
  "ok_driver =
     \<lparr>empty_select = EmptyLayer, AddGeometryColumn = True, CreateSpatialIndex = True,
      CreateFeature_raster = (\<lambda>rows pabyData. Some (int (length rows) + 1)),
      CreateFeature_metadata = (\<lambda>rows hFeat. True)\<rparr>"

definition ok_source :: "int \<Rightarrow> int \<Rightarrow> src_dataset" where
  "ok_source w h =
     \<lparr>GetRasterCount = 1, GetRasterXSize = w, GetRasterYSize = h,
      GetGeoTransform = (CE_Failure, []), GetProjectionRef = None,
      GetDescription = ''src.tif'', GDALGetDataTypeSize = 8,
      RasterIO = (\<lambda>nXOff nYOff nXSize nYSize. CE_None)\<rparr>"

definition empty_tables :: store where
  "empty_tables =
     \<lparr>layers = [''t_rasters'' \<mapsto> [], ''t_metadata'' \<mapsto> []],
      geometry_columns = [''t_metadata'' \<mapsto> - 1],
      spatial_ref_sys = [], journal = None\<rparr>"

definition scenario_600 :: job where
  "scenario_600 =
     \<lparr>poSrcDS = ok_source 600 600, driver = ok_driver,
      GDALCreateCopy = (\<lambda>nXOff nYOff nXSize nYSize. Some []),
      pfnProgress = None, nXSize = 600, nYSize = 600,
      nBlockXSize = 256, nBlockYSize = 256,
      adfGeoTransform = [0, 1, 0, 0, 0, - 1],
      osRasterLayer = ''t_rasters'', osMetadataLayer = ''t_metadata''\<rparr>"

definition old_store :: store where
  "old_store =
     \<lparr>layers =
        [''t_rasters'' \<mapsto> [RasterRow \<lparr>raster_id = 1, raster = []\<rparr>],
         ''t_metadata'' \<mapsto>
           [MetadataRow
              \<lparr>row_id = 1, source_name = ''first.tif'', tile_id = 0, width = 1, height = 1,
               pixel_x_size = 1, pixel_y_size = 1,
               geometry = rectangle 10 9 11 10\<rparr>]],
      geometry_columns = [''t_metadata'' \<mapsto> - 1],
      spatial_ref_sys =
        [\<lparr>srid = 4326, auth_name = ''EPSG'', auth_srid = 4326, ref_sys_name = None,
          proj4text = ''+proj=longlat''\<rparr>],
      journal = None\<rparr>"

definition orphan_store :: store where
  "orphan_store =
     \<lparr>layers = [''t_rasters'' \<mapsto> [RasterRow \<lparr>raster_id = 1, raster = []\<rparr>]],
      geometry_columns = Map.empty,
      spatial_ref_sys =
        [\<lparr>srid = 4326, auth_name = ''EPSG'', auth_srid = 4326, ref_sys_name = None,
          proj4text = ''+proj=longlat''\<rparr>],
      journal = None\<rparr>"

definition demo_world :: world where
  "demo_world =
     \<lparr>lib = demo_cpl, sqlite_driver = ok_driver,
      tile_codec = (\<lambda>nXOff nYOff nXSize nYSize. Some []),
      GDALCreate =
        (\<lambda>p. Some \<lparr>layers = Map.empty, geometry_columns = Map.empty,
                     spatial_ref_sys = [], journal = None\<rparr>),
      RasterliteOpenSQLiteDB =
        (\<lambda>p. if p = ''old.sqlite'' then Some old_store
             else if p = ''orphan.sqlite'' then Some orphan_store else None)\<rparr>"

definition whole_600 :: job where
  "whole_600 = scenario_600\<lparr>nBlockXSize := 600, nBlockYSize := 600\<rparr>"

definition failing_read_job :: job where
  "failing_read_job =
     scenario_600\<lparr>poSrcDS := (ok_source 600 600)
        \<lparr>RasterIO := (\<lambda>nXOff nYOff nXSize nYSize. if nXOff = 512 then CE_Failure else CE_None)\<rparr>\<rparr>"



section \<open>Lemmas\<close>

text \<open>
  The arithmetic of the block lattice where it does not overflow, the two loops as one
  pass over the blocks, the rows a pass inserts, and what a block leaves unchanged.
\<close>

lemma wrap32_id: "- 2147483648 \<le> x \<Longrightarrow> x \<le> 2147483647 \<Longrightarrow> wrap32 x = x"
  by (simp add: wrap32_def)

lemma sdiv_nonneg: "0 \<le> a \<Longrightarrow> 0 < b \<Longrightarrow> a sdiv b = a div (b::int)"
  by (simp add: signed_divide_int_def sgn_if)

lemma ceil_div_eq:
  fixes n b :: int
  assumes "0 < b"
  shows "(n + b - 1) div b = (if n mod b = 0 then n div b else n div b + 1)"
proof -
  have e: "(n mod b + b - 1) + (n div b) * b = n + b - 1"
    by (simp add: algebra_simps)
  have "((n mod b + b - 1) + (n div b) * b) div b = n div b + (n mod b + b - 1) div b"
    using assms by simp
  then have f: "(n + b - 1) div b = n div b + (n mod b + b - 1) div b"
    by (simp only: e)
  show ?thesis
  proof (cases "n mod b = 0")
    case True
    then show ?thesis using f assms by (simp add: div_pos_pos_trivial)
  next
    case False
    have "0 \<le> n mod b" "n mod b < b" using assms by simp_all
    then have r: "0 < n mod b" "n mod b < b" using False by linarith+
    have "(n mod b + b - 1) div b = (n mod b + b - 1 - b) div b + 1"
      by (rule div_pos_geq) (use r assms in linarith)+
    moreover have "(n mod b + b - 1 - b) div b = 0"
      by (rule div_pos_pos_trivial) (use r in linarith)+
    ultimately show ?thesis using f False by simp
  qed
qed

lemma div_mult_bounds:
  fixes a b :: int
  assumes "0 < b"
  shows "a div b * b \<le> a" "a < a div b * b + b"
proof -
  have e: "a div b * b + a mod b = a" by simp
  have "0 \<le> a mod b" "a mod b < b" using assms by simp_all
  then show "a div b * b \<le> a" "a < a div b * b + b" using e by linarith+
qed

lemma block_count_eq:
  assumes "0 < n" "0 < b" "n + b \<le> INT_MAX"
  shows "block_count n b = (n + b - 1) div b"
proof -
  have q: "0 \<le> (n + b - 1) div b" using assms by (simp add: pos_imp_zdiv_nonneg_iff)
  have r: "(n + b - 1) div b \<le> n + b - 1" using assms int_div_le_self [of "n + b - 1" b] by simp
  have 1: "add32 n b = n + b" using assms by (simp add: add32_def wrap32_id INT_MAX_def)
  have 2: "sub32 (n + b) 1 = n + b - 1" using assms by (simp add: sub32_def wrap32_id INT_MAX_def)
  have 3: "(n + b - 1) sdiv b = (n + b - 1) div b" using assms by (simp add: sdiv_nonneg)
  have 4: "wrap32 ((n + b - 1) div b) = (n + b - 1) div b"
    using q r assms by (intro wrap32_id) (simp_all add: INT_MAX_def)
  show ?thesis by (simp only: block_count_def div32_def 1 2 3 4)
qed

lemma block_count_pos:
  assumes "0 < n" "0 < b" "n + b \<le> INT_MAX"
  shows "0 < block_count n b"
  using assms by (simp add: block_count_eq pos_imp_zdiv_pos_iff)

lemma block_count_ceiling:
  assumes "0 < n" "0 < b" "n + b \<le> INT_MAX"
  shows "block_count n b = \<lceil>real_of_int n / real_of_int b\<rceil>"
  using assms by (simp add: block_count_eq ceiling_divide_eq_div ceil_div_eq zdiv_zminus1_eq_if)

lemma block_count_mult_le:
  assumes "0 < n" "0 < b" "n + b \<le> INT_MAX"
  shows "block_count n b * b \<le> n + b - 1"
  using assms div_mult_bounds(1) [of b "n + b - 1"] by (simp add: block_count_eq)

lemma block_count_mult_ge:
  assumes "0 < n" "0 < b" "n + b \<le> INT_MAX"
  shows "n \<le> block_count n b * b"
proof -
  have "n + b - 1 < (n + b - 1) div b * b + b" using assms(2) by (rule div_mult_bounds(2))
  then show ?thesis using assms by (simp add: block_count_eq)
qed

lemma off_bounds:
  assumes "0 < n" "0 < b" "n + b \<le> INT_MAX" "0 \<le> i" "i < block_count n b"
  shows "0 \<le> i * b" "i * b < n" "(i + 1) * b \<le> n + b - 1" "0 \<le> (i + 1) * b"
proof -
  show "0 \<le> i * b" using assms by simp
  show "0 \<le> (i + 1) * b" using assms by simp
  have "i + 1 \<le> block_count n b" using assms by simp
  then have "(i + 1) * b \<le> block_count n b * b"
    using assms(2) by (intro mult_right_mono) simp_all
  then show le: "(i + 1) * b \<le> n + b - 1" using block_count_mult_le [OF assms(1-3)] by linarith
  have "(i + 1) * b = i * b + b" by (simp add: algebra_simps)
  then show "i * b < n" using le by linarith
qed

lemma counter_succ:
  assumes "0 \<le> i" "i < block_count n b"
  shows "add32 i 1 = i + 1"
proof -
  have "block_count n b < 2147483648" by (simp add: block_count_def div32_def wrap32_less)
  then show ?thesis using assms by (simp add: add32_def wrap32_id)
qed

lemma nReqSize_eq:
  assumes "0 < n" "0 < b" "n + b \<le> INT_MAX" "0 \<le> i" "i < block_count n b"
  shows "nReqSize n b i = (if (i + 1) * b > n then n - i * b else b)"
proof -
  note ob = off_bounds [OF assms]
  have 1: "add32 i 1 = i + 1" using assms by (simp add: counter_succ)
  have 2: "mul32 (i + 1) b = (i + 1) * b" unfolding mul32_def
    by (rule wrap32_id) (use ob assms(1,2,3) in \<open>unfold INT_MAX_def, linarith\<close>)+
  have 3: "mul32 i b = i * b" unfolding mul32_def
    by (rule wrap32_id) (use ob assms(1,2,3) in \<open>unfold INT_MAX_def, linarith\<close>)+
  have 4: "sub32 n (i * b) = n - i * b" unfolding sub32_def
    by (rule wrap32_id) (use ob assms(1,2,3) in \<open>unfold INT_MAX_def, linarith\<close>)+
  show ?thesis by (simp only: nReqSize_def 1 2 3 4)
qed

lemma nReqSize_inner:
  assumes "0 < n" "0 < b" "n + b \<le> INT_MAX" "0 \<le> i" "i < block_count n b - 1"
  shows "nReqSize n b i = b"
proof -
  have "i + 1 \<le> block_count n b - 1" using assms by simp
  then have "(i + 1) * b \<le> (block_count n b - 1) * b"
    using assms(2) by (intro mult_right_mono) simp_all
  moreover have "(block_count n b - 1) * b = block_count n b * b - b"
    by (simp add: algebra_simps)
  ultimately have "\<not> (i + 1) * b > n"
    using block_count_mult_le [OF assms(1-3)] by linarith
  moreover have "i < block_count n b" using assms by simp
  ultimately show ?thesis using assms nReqSize_eq [of n b i] by simp
qed

lemma nReqSize_last:
  assumes "0 < n" "0 < b" "n + b \<le> INT_MAX"
  shows "nReqSize n b (block_count n b - 1) = (if n mod b = 0 then b else n mod b)"
proof -
  have p: "0 < block_count n b" using assms by (rule block_count_pos)
  have e: "block_count n b = (if n mod b = 0 then n div b else n div b + 1)"
    using assms by (simp add: block_count_eq ceil_div_eq)
  have m: "n div b * b = n - n mod b" by (simp add: algebra_simps minus_mod_eq_div_mult)
  have r: "0 \<le> n mod b" "n mod b < b" using assms by simp_all
  have q: "nReqSize n b (block_count n b - 1) =
        (if block_count n b * b > n then n - (block_count n b - 1) * b else b)"
    using nReqSize_eq [of n b "block_count n b - 1"] assms p by simp
  have s: "(block_count n b - 1) * b = block_count n b * b - b" by (simp add: algebra_simps)
  show ?thesis
  proof (cases "n mod b = 0")
    case True
    then have "block_count n b * b = n" using e m by simp
    then show ?thesis using q True by simp
  next
    case False
    then have "block_count n b * b = n - n mod b + b" using e m by (simp add: algebra_simps)
    then show ?thesis using q s False r by simp
  qed
qed

lemma nReqSize_le:
  assumes "0 < n" "0 < b" "n + b \<le> INT_MAX" "0 \<le> i" "i < block_count n b"
  shows "0 < nReqSize n b i" "nReqSize n b i \<le> b"
proof -
  note ob = off_bounds [OF assms]
  have "(i + 1) * b = i * b + b" by (simp add: algebra_simps)
  then show "0 < nReqSize n b i" "nReqSize n b i \<le> b"
    using ob assms by (simp_all add: nReqSize_eq)
qed

lemma fold_failed: "eErr s \<noteq> CE_None \<Longrightarrow> fold (block_step j) ps s = s"
  by (induction ps) (simp_all add: block_step_def)

lemma nXBlocks_less: "nXBlocks j < 2147483648"
  by (simp add: nXBlocks_def block_count_def div32_def wrap32_less)

lemma nYBlocks_less: "nYBlocks j < 2147483648"
  by (simp add: nYBlocks_def block_count_def div32_def wrap32_less)

lemma loop_x_fold:
  "0 \<le> nBlockXOff \<Longrightarrow>
   loop_x j nBlockYOff nBlockXOff s =
     fold (\<lambda>x. block_step j (nBlockYOff, x)) [nBlockXOff..nXBlocks j - 1] s"
proof (induction j nBlockYOff nBlockXOff s rule: loop_x.induct)
  case (1 j nBlockYOff nBlockXOff s)
  show ?case
  proof (cases "eErr s = CE_None \<and> nBlockXOff < nXBlocks j")
    case True
    have a: "add32 nBlockXOff 1 = nBlockXOff + 1"
      using True "1.prems" nXBlocks_less [of j] by (simp add: add32_def wrap32_id)
    have "loop_x j nBlockYOff nBlockXOff s =
          loop_x j nBlockYOff (nBlockXOff + 1) (tile_body j nBlockXOff nBlockYOff s)"
      using True a by (subst loop_x.simps) simp
    also have "\<dots> = fold (\<lambda>x. block_step j (nBlockYOff, x)) [nBlockXOff + 1..nXBlocks j - 1]
                  (tile_body j nBlockXOff nBlockYOff s)"
    proof -
      have "0 \<le> add32 nBlockXOff 1" using "1.prems" by (simp only: a)
      from "1.IH" [OF True this] show ?thesis by (simp only: a)
    qed
    also have "\<dots> = fold (\<lambda>x. block_step j (nBlockYOff, x)) [nBlockXOff..nXBlocks j - 1] s"
    proof -
      have u: "[nBlockXOff..nXBlocks j - 1] = nBlockXOff # [nBlockXOff + 1..nXBlocks j - 1]"
        using True by (intro upto_rec1) linarith
      have b: "block_step j (nBlockYOff, nBlockXOff) s = tile_body j nBlockXOff nBlockYOff s"
        using True by (simp add: block_step_def)
      show ?thesis by (simp only: u fold_Cons comp_apply b)
    qed
    finally show ?thesis .
  next
    case False
    then have l: "loop_x j nBlockYOff nBlockXOff s = s"
      by (subst loop_x.simps) auto
    show ?thesis
    proof (cases "eErr s = CE_None")
      case True
      then have "\<not> nBlockXOff < nXBlocks j" using False by simp
      then have "[nBlockXOff..nXBlocks j - 1] = []" by simp
      then show ?thesis using l by simp
    next
      case False
      then have "fold (block_step j) (map (Pair nBlockYOff) [nBlockXOff..nXBlocks j - 1]) s = s"
        by (rule fold_failed)
      then show ?thesis using l by (simp add: fold_map comp_def)
    qed
  qed
qed

lemma loop_y_fold:
  "0 \<le> nBlockYOff \<Longrightarrow>
   loop_y j nBlockYOff s =
     fold (\<lambda>y. fold (\<lambda>x. block_step j (y, x)) [0..nXBlocks j - 1]) [nBlockYOff..nYBlocks j - 1] s"
proof (induction j nBlockYOff s rule: loop_y.induct)
  case (1 j nBlockYOff s)
  let ?row = "\<lambda>y. fold (\<lambda>x. block_step j (y, x)) [0..nXBlocks j - 1]"
  have failed: "fold ?row ys t = t" if "eErr t \<noteq> CE_None" for ys t
  proof (induction ys)
    case Nil
    show ?case by simp
  next
    case (Cons y ys)
    have "fold (block_step j) (map (Pair y) [0..nXBlocks j - 1]) t = t"
      using that by (rule fold_failed)
    then show ?case using Cons by (simp add: fold_map comp_def)
  qed
  show ?case
  proof (cases "eErr s = CE_None \<and> nBlockYOff < nYBlocks j")
    case True
    have a: "add32 nBlockYOff 1 = nBlockYOff + 1"
      using True "1.prems" nYBlocks_less [of j] by (simp add: add32_def wrap32_id)
    have "loop_y j nBlockYOff s = loop_y j (nBlockYOff + 1) (loop_x j nBlockYOff 0 s)"
      using True a by (subst loop_y.simps) simp
    also have "\<dots> = fold ?row [nBlockYOff + 1..nYBlocks j - 1] (loop_x j nBlockYOff 0 s)"
    proof -
      have "0 \<le> add32 nBlockYOff 1" using "1.prems" by (simp only: a)
      from "1.IH" [OF True this] show ?thesis by (simp only: a)
    qed
    also have "\<dots> = fold ?row [nBlockYOff..nYBlocks j - 1] s"
    proof -
      have u: "[nBlockYOff..nYBlocks j - 1] = nBlockYOff # [nBlockYOff + 1..nYBlocks j - 1]"
        using True by (intro upto_rec1) linarith
      have b: "loop_x j nBlockYOff 0 s = ?row nBlockYOff s"
        by (rule loop_x_fold) simp
      show ?thesis by (simp only: u fold_Cons comp_apply b)
    qed
    finally show ?thesis .
  next
    case False
    then have l: "loop_y j nBlockYOff s = s"
      by (subst loop_y.simps) auto
    show ?thesis
    proof (cases "eErr s = CE_None")
      case True
      then have "\<not> nBlockYOff < nYBlocks j" using False by simp
      then have "[nBlockYOff..nYBlocks j - 1] = []" by simp
      then show ?thesis using l by simp
    next
      case False
      then show ?thesis using l failed by simp
    qed
  qed
qed

lemma fold_product:
  "fold f (List.product xs ys) = fold (\<lambda>x. fold (\<lambda>y. f (x, y)) ys) xs"
  by (induction xs) (simp_all add: fold_map comp_def)

lemma run_loops_fold:
  "run_loops j hDS0 =
     fold (block_step j) (blocks j)
       \<lparr>hDS = sql_begin hDS0, nTileId = 0, nBlocks = 0, eErr = CE_None\<rparr>"
  by (simp add: run_loops_def loop_y_fold blocks_def fold_product)

lemma insert_raster_frame:
  assumes "insert_raster drv name b h = Some (fid, h1)"
  shows "journal h1 = journal h" "geometry_columns h1 = geometry_columns h"
        "spatial_ref_sys h1 = spatial_ref_sys h"
        "\<And>other. other \<noteq> name \<Longrightarrow> layers h1 other = layers h other"
  using assms by (auto simp: insert_raster_def split: option.splits)

lemma insert_metadata_frame:
  assumes "insert_metadata drv name f h = Some h1"
  shows "journal h1 = journal h" "geometry_columns h1 = geometry_columns h"
        "spatial_ref_sys h1 = spatial_ref_sys h"
        "\<And>other. other \<noteq> name \<Longrightarrow> layers h1 other = layers h other"
  using assms by (auto simp: insert_metadata_def split: option.splits if_splits)

lemma insert_metadata_rows:
  assumes "insert_metadata drv name f h = Some h1"
  shows "\<exists>rows. layers h name = Some rows \<and> layers h1 name = Some (rows @ [MetadataRow f])"
  using assms by (auto simp: insert_metadata_def split: option.splits if_splits)

lemma persist_metadata_cases:
  assumes "layers hDS1 (osMetadataLayer j) = Some rows0"
  shows "(layers (hDS (persist_metadata j bx by fid hDS1 s)) (osMetadataLayer j) = Some rows0 \<and>
          eErr (persist_metadata j bx by fid hDS1 s) \<noteq> CE_None) \<or>
         (layers (hDS (persist_metadata j bx by fid hDS1 s)) (osMetadataLayer j) =
            Some (rows0 @ [MetadataRow (metadata_feature j bx by (wrap32 fid) (nTileId s))]) \<and>
          nTileId (persist_metadata j bx by fid hDS1 s) = add32 (nTileId s) 1)"
  using assms
  by (auto simp: persist_metadata_def Let_def insert_metadata_def split: option.splits)

lemma tile_body_cases:
  assumes "osRasterLayer j \<noteq> osMetadataLayer j"
    and "layers (hDS s) (osMetadataLayer j) = Some rows0"
  shows "(layers (hDS (tile_body j bx by s)) (osMetadataLayer j) = Some rows0 \<and>
          eErr (tile_body j bx by s) \<noteq> CE_None) \<or>
         (\<exists>f. layers (hDS (tile_body j bx by s)) (osMetadataLayer j) =
            Some (rows0 @ [MetadataRow (metadata_feature j bx by f (nTileId s))]) \<and>
          nTileId (tile_body j bx by s) = add32 (nTileId s) 1)"
proof -
  let ?e = "RasterIO (poSrcDS j) (mul32 bx (nBlockXSize j)) (mul32 by (nBlockYSize j))
              (nReqSize (nXSize j) (nBlockXSize j) bx) (nReqSize (nYSize j) (nBlockYSize j) by)"
  let ?c = "GDALCreateCopy j (mul32 bx (nBlockXSize j)) (mul32 by (nBlockYSize j))
              (nReqSize (nXSize j) (nBlockXSize j) bx) (nReqSize (nYSize j) (nBlockYSize j) by)"
  show ?thesis
  proof (cases "?e = CE_None")
    case False
    then show ?thesis using assms by (simp add: tile_body_def Let_def)
  next
    case e: True
    show ?thesis
    proof (cases ?c)
      case None
      then show ?thesis using assms e by (simp add: tile_body_def Let_def)
    next
      case (Some pabyData)
      note enc = this
      show ?thesis
      proof (cases "insert_raster (driver j) (osRasterLayer j) pabyData (hDS s)")
        case None
        then show ?thesis using assms e enc by (simp add: tile_body_def Let_def)
      next
        case (Some r)
        note Some2 = this
        obtain fid hDS1 where r: "r = (fid, hDS1)" by (cases r)
        have l: "layers hDS1 (osMetadataLayer j) = Some rows0"
          using insert_raster_frame(4) [OF Some2 [unfolded r], of "osMetadataLayer j"] assms
          by simp
        have t: "tile_body j bx by s = persist_metadata j bx by fid hDS1 s"
          using e enc Some2 r by (simp add: tile_body_def Let_def)
        show ?thesis using persist_metadata_cases [OF l, of bx "by" fid s] unfolding t by blast
      qed
    qed
  qed
qed

lemma fold_rows:
  assumes "osRasterLayer j \<noteq> osMetadataLayer j"
  shows "layers (hDS s) (osMetadataLayer j) = Some rows0 \<Longrightarrow>
         \<exists>fs. length fs \<le> length ps \<and>
              layers (hDS (fold (block_step j) ps s)) (osMetadataLayer j) =
                Some (rows0 @ map MetadataRow (feature_rows j (nTileId s) ps fs)) \<and>
              (eErr (fold (block_step j) ps s) = CE_None \<longrightarrow> length fs = length ps)"
proof (induction ps arbitrary: s rows0)
  case Nil
  then show ?case by simp
next
  case (Cons p ps)
  let ?s1 = "block_step j p s"
  show ?case
  proof (cases "eErr s = CE_None")
    case False
    then have "fold (block_step j) (p # ps) s = s" by (rule fold_failed)
    then show ?thesis using Cons.prems False by (intro exI [of _ "[]"]) simp
  next
    case True
    then have s1: "?s1 = tile_body j (snd p) (fst p) s" by (simp add: block_step_def)
    from tile_body_cases [OF assms Cons.prems, of "snd p" "fst p"]
    show ?thesis
    proof
      assume a: "layers (hDS (tile_body j (snd p) (fst p) s)) (osMetadataLayer j) = Some rows0 \<and>
                 eErr (tile_body j (snd p) (fst p) s) \<noteq> CE_None"
      then have "fold (block_step j) ps ?s1 = ?s1" unfolding s1 by (intro fold_failed) simp
      then show ?thesis using a s1 by (intro exI [of _ "[]"]) simp
    next
      assume "\<exists>f. layers (hDS (tile_body j (snd p) (fst p) s)) (osMetadataLayer j) =
                Some (rows0 @ [MetadataRow (metadata_feature j (snd p) (fst p) f (nTileId s))]) \<and>
              nTileId (tile_body j (snd p) (fst p) s) = add32 (nTileId s) 1"
      then obtain f where
        l: "layers (hDS ?s1) (osMetadataLayer j) =
              Some (rows0 @ [MetadataRow (metadata_feature j (snd p) (fst p) f (nTileId s))])"
        and n: "nTileId ?s1 = add32 (nTileId s) 1"
        unfolding s1 by blast
      from Cons.IH [OF l] obtain fs where
        fs: "length fs \<le> length ps"
          "layers (hDS (fold (block_step j) ps ?s1)) (osMetadataLayer j) =
             Some ((rows0 @ [MetadataRow (metadata_feature j (snd p) (fst p) f (nTileId s))]) @
                   map MetadataRow (feature_rows j (nTileId ?s1) ps fs))"
          "eErr (fold (block_step j) ps ?s1) = CE_None \<longrightarrow> length fs = length ps"
        by blast
      show ?thesis using fs n by (intro exI [of _ "f # fs"]) simp
    qed
  qed
qed

lemma length_feature_rows:
  "length fs \<le> length ps \<Longrightarrow> length (feature_rows j n ps fs) = length fs"
  by (induction j n ps fs rule: feature_rows.induct) simp_all

lemma feature_rows_nth_block:
  "length fs \<le> length ps \<Longrightarrow> k < length fs \<Longrightarrow>
   \<exists>t. feature_rows j n ps fs ! k = metadata_feature j (snd (ps ! k)) (fst (ps ! k)) (fs ! k) t"
proof (induction j n ps fs arbitrary: k rule: feature_rows.induct)
  case (1 j n p ps f fs)
  then show ?case by (cases k) auto
qed simp_all

lemma feature_rows_nth:
  "length fs \<le> length ps \<Longrightarrow> k < length fs \<Longrightarrow> 0 \<le> n \<Longrightarrow>
   n + int (length fs) \<le> INT_MAX + 1 \<Longrightarrow>
   feature_rows j n ps fs ! k = metadata_feature j (snd (ps ! k)) (fst (ps ! k)) (fs ! k) (n + int k)"
proof (induction j n ps fs arbitrary: k rule: feature_rows.induct)
  case (1 j n p ps f fs)
  show ?case
  proof (cases k)
    case 0
    then show ?thesis by simp
  next
    case (Suc k')
    have a: "add32 n 1 = n + 1" using "1.prems" Suc
      by (simp add: add32_def INT_MAX_def wrap32_id)
    show ?thesis using "1.IH" [of k'] "1.prems" Suc a by (simp add: algebra_simps)
  qed
qed simp_all

lemma feature_rows_set:
  "r \<in> set (feature_rows j n ps fs) \<Longrightarrow>
   \<exists>p f t. p \<in> set ps \<and> r = metadata_feature j (snd p) (fst p) f t"
proof (induction j n ps fs rule: feature_rows.induct)
  case (1 j n p ps f fs)
  from "1.prems" have "r = metadata_feature j (snd p) (fst p) f n \<or>
      r \<in> set (feature_rows j (add32 n 1) ps fs)" by simp
  then show ?case
  proof
    assume "r = metadata_feature j (snd p) (fst p) f n"
    then show ?thesis by (intro exI [of _ p] exI [of _ f] exI [of _ n]) simp
  next
    assume "r \<in> set (feature_rows j (add32 n 1) ps fs)"
    from "1.IH" [OF this] obtain p' f' t where
      "p' \<in> set ps" "r = metadata_feature j (snd p') (fst p') f' t" by blast
    then show ?thesis by (intro exI [of _ p'] exI [of _ f'] exI [of _ t]) simp
  qed
qed simp_all

lemma length_blocks: "length (blocks j) = nat (nYBlocks j) * nat (nXBlocks j)"
  by (simp add: blocks_def)

lemma blocks_set:
  "p \<in> set (blocks j) \<longleftrightarrow>
     0 \<le> fst p \<and> fst p < nYBlocks j \<and> 0 \<le> snd p \<and> snd p < nXBlocks j"
  by (cases p) (auto simp: blocks_def)

lemma blocks_nth:
  assumes "k < length (blocks j)"
  shows "blocks j ! k = (int k div nXBlocks j, int k mod nXBlocks j)"
proof -
  have k: "k < nat (nYBlocks j) * nat (nXBlocks j)" using assms by (simp add: length_blocks)
  then have "nat (nYBlocks j) * nat (nXBlocks j) \<noteq> 0" by linarith
  then have "nat (nYBlocks j) \<noteq> 0" "nat (nXBlocks j) \<noteq> 0" by simp_all
  then have pos: "0 < nXBlocks j" "0 < nYBlocks j" by simp_all
  have d: "k div nat (nXBlocks j) < nat (nYBlocks j)"
    using k pos by (simp add: less_mult_imp_div_less)
  have m: "k mod nat (nXBlocks j) < nat (nXBlocks j)" using pos by simp
  have 1: "[0..nYBlocks j - 1] ! (k div nat (nXBlocks j)) = int (k div nat (nXBlocks j))"
    using d by (subst nth_upto) auto
  have 2: "[0..nXBlocks j - 1] ! (k mod nat (nXBlocks j)) = int (k mod nat (nXBlocks j))"
    using m by (subst nth_upto) auto
  have 3: "int (k div nat (nXBlocks j)) = int k div nXBlocks j"
    using pos by (simp add: zdiv_int)
  have 4: "int (k mod nat (nXBlocks j)) = int k mod nXBlocks j"
    using pos by (simp add: zmod_int)
  show ?thesis
    using assms by (simp add: blocks_def product_nth 1 2 3 4 del: upto.simps)
qed

lemma run_loops_rows:
  assumes "osRasterLayer j \<noteq> osMetadataLayer j"
    and "layers hDS0 (osMetadataLayer j) = Some rows0"
  shows "\<exists>fs. length fs \<le> length (blocks j) \<and>
              layers (hDS (run_loops j hDS0)) (osMetadataLayer j) =
                Some (rows0 @ map MetadataRow (feature_rows j 0 (blocks j) fs)) \<and>
              (eErr (run_loops j hDS0) = CE_None \<longrightarrow> length fs = length (blocks j))"
proof -
  let ?s0 = "\<lparr>hDS = sql_begin hDS0, nTileId = 0, nBlocks = 0, eErr = CE_None\<rparr>"
  have "layers (hDS ?s0) (osMetadataLayer j) = Some rows0"
    using assms(2) by (simp add: sql_begin_def)
  from fold_rows [OF assms(1) this, of "blocks j"] show ?thesis
    by (simp add: run_loops_fold)
qed

lemma metadata_feature_simps:
  "width (metadata_feature j bx by f t) = nReqSize (nXSize j) (nBlockXSize j) bx"
  "height (metadata_feature j bx by f t) = nReqSize (nYSize j) (nBlockYSize j) by"
  "tile_id (metadata_feature j bx by f t) = t"
  "row_id (metadata_feature j bx by f t) = f"
  "pixel_x_size (metadata_feature j bx by f t) = adfGeoTransform j ! 1"
  "pixel_y_size (metadata_feature j bx by f t) = - (adfGeoTransform j ! 5)"
  "source_name (metadata_feature j bx by f t) = GetDescription (poSrcDS j)"
  by (simp_all add: metadata_feature_def Let_def)





lemma run_loops_nth:
  assumes "osRasterLayer j \<noteq> osMetadataLayer j"
    and "layers hDS0 (osMetadataLayer j) = Some rows0"
  shows "\<exists>ms. layers (hDS (run_loops j hDS0)) (osMetadataLayer j) =
                Some (rows0 @ map MetadataRow ms) \<and>
              length ms \<le> length (blocks j) \<and>
              (eErr (run_loops j hDS0) = CE_None \<longrightarrow> length ms = length (blocks j)) \<and>
              (\<forall>k<length ms. \<exists>f t.
                 ms ! k = metadata_feature j (int k mod nXBlocks j) (int k div nXBlocks j) f t \<and>
                 (int (length ms) \<le> INT_MAX + 1 \<longrightarrow> t = int k))"
proof -
  from run_loops_rows [OF assms] obtain fs where
    fs: "length fs \<le> length (blocks j)"
      "layers (hDS (run_loops j hDS0)) (osMetadataLayer j) =
         Some (rows0 @ map MetadataRow (feature_rows j 0 (blocks j) fs))"
      "eErr (run_loops j hDS0) = CE_None \<longrightarrow> length fs = length (blocks j)"
    by blast
  let ?ms = "feature_rows j 0 (blocks j) fs"
  have len: "length ?ms = length fs" using fs(1) by (rule length_feature_rows)
  have "\<exists>f t. ?ms ! k = metadata_feature j (int k mod nXBlocks j) (int k div nXBlocks j) f t \<and>
          (int (length ?ms) \<le> INT_MAX + 1 \<longrightarrow> t = int k)" if k: "k < length ?ms" for k
  proof -
    have kb: "k < length (blocks j)" using k len fs(1) by simp
    have b: "blocks j ! k = (int k div nXBlocks j, int k mod nXBlocks j)"
      using kb by (rule blocks_nth)
    show ?thesis
    proof (cases "int (length ?ms) \<le> INT_MAX + 1")
      case True
      have "?ms ! k = metadata_feature j (snd (blocks j ! k)) (fst (blocks j ! k)) (fs ! k) (0 + int k)"
        using fs(1) k len True by (intro feature_rows_nth) simp_all
      then show ?thesis using b by auto
    next
      case False
      from feature_rows_nth_block [OF fs(1), of k j 0] k len obtain t where
        "?ms ! k = metadata_feature j (snd (blocks j ! k)) (fst (blocks j ! k)) (fs ! k) t"
        by auto
      then show ?thesis using b False by auto
    qed
  qed
  then show ?thesis using fs len by (intro exI [of _ ?ms]) simp
qed

lemma block_index_range:
  assumes "k < length (blocks j)"
  shows "0 \<le> int k mod nXBlocks j" "int k mod nXBlocks j < nXBlocks j"
        "0 \<le> int k div nXBlocks j" "int k div nXBlocks j < nYBlocks j"
proof -
  have "blocks j ! k \<in> set (blocks j)" using assms by simp
  then have "0 \<le> fst (blocks j ! k) \<and> fst (blocks j ! k) < nYBlocks j \<and>
             0 \<le> snd (blocks j ! k) \<and> snd (blocks j ! k) < nXBlocks j"
    by (simp only: blocks_set)
  then show "0 \<le> int k mod nXBlocks j" "int k mod nXBlocks j < nXBlocks j"
        "0 \<le> int k div nXBlocks j" "int k div nXBlocks j < nYBlocks j"
    by (simp_all add: blocks_nth [OF assms])
qed

lemma tile_loop_committed:
  "eErr (run_loops j hDS0) = CE_None \<Longrightarrow>
   tile_loop j pszFilename hDS0 =
     (Inr (GDALOpen pszFilename), sql_commit (hDS (run_loops j hDS0)))"
  by (simp add: tile_loop_def Let_def)

lemma block_count_whole:
  assumes "0 < n" "n + n \<le> INT_MAX"
  shows "block_count n n = 1"
proof -
  have "(n + n - 1) div n = (if n mod n = 0 then n div n else n div n + 1)"
    using assms(1) by (rule ceil_div_eq)
  then have "(n + n - 1) div n = 1" using assms(1) by simp
  then show ?thesis using assms by (simp only: block_count_eq)
qed

lemma nReqSize_whole:
  assumes "0 < n" "n + n \<le> INT_MAX"
  shows "nReqSize n n 0 = n"
  using nReqSize_eq [OF assms(1) assms(1) assms(2), of 0] assms
  by (simp add: block_count_whole)

lemma run_loops_single:
  assumes "nXBlocks j = 1" "nYBlocks j = 1"
  shows "run_loops j hDS0 =
     tile_body j 0 0 \<lparr>hDS = sql_begin hDS0, nTileId = 0, nBlocks = 0, eErr = CE_None\<rparr>"
  using assms by (simp add: run_loops_fold blocks_def block_step_def)

lemma table_tokens_none:
  "\<forall>t\<in>set ts. \<not> STARTS_WITH_CI t ''table='' \<Longrightarrow> table_tokens ts n = n"
  by (induction ts arbitrary: n) simp_all

lemma RasterliteInsertSRID_frame:
  assumes "RasterliteInsertSRID L drv hDS0 pszWKT = (nSRSId, hDS1)"
  shows "layers hDS1 = layers hDS0" "geometry_columns hDS1 = geometry_columns hDS0"
        "journal hDS1 = journal hDS0"
  using assms
  by (auto simp: RasterliteInsertSRID_def sql_insert_srs_def
      split: prod.splits option.splits list.splits if_splits)



lemma rasters_metadata_differ: "t @ ''_rasters'' \<noteq> t @ ''_metadata''"
  by simp


lemma tile_body_frame:
  "journal (hDS (tile_body j bx by s)) = journal (hDS s) \<and>
   geometry_columns (hDS (tile_body j bx by s)) = geometry_columns (hDS s) \<and>
   spatial_ref_sys (hDS (tile_body j bx by s)) = spatial_ref_sys (hDS s)"
  by (auto simp: tile_body_def persist_metadata_def Let_def insert_raster_def insert_metadata_def
      split: option.splits)

lemma fold_frame:
  "journal (hDS (fold (block_step j) ps s)) = journal (hDS s) \<and>
   geometry_columns (hDS (fold (block_step j) ps s)) = geometry_columns (hDS s) \<and>
   spatial_ref_sys (hDS (fold (block_step j) ps s)) = spatial_ref_sys (hDS s)"
proof (induction ps arbitrary: s)
  case Nil
  show ?case by simp
next
  case (Cons p ps)
  show ?case using Cons [of "block_step j p s"] tile_body_frame [of j "snd p" "fst p" s]
    by (simp add: block_step_def)
qed

lemma run_loops_frame:
  "journal (hDS (run_loops j hDS0)) = Some (layers hDS0)"
  "geometry_columns (hDS (run_loops j hDS0)) = geometry_columns hDS0"
  "spatial_ref_sys (hDS (run_loops j hDS0)) = spatial_ref_sys hDS0"
  using fold_frame [of j "blocks j"
      "\<lparr>hDS = sql_begin hDS0, nTileId = 0, nBlocks = 0, eErr = CE_None\<rparr>"]
  by (simp_all add: run_loops_fold sql_begin_def)

lemma tile_body_succeeds:
  assumes "\<And>a b c d. RasterIO (poSrcDS j) a b c d = CE_None"
    and "\<And>a b c d. GDALCreateCopy j a b c d \<noteq> None"
    and "\<And>rows b. CreateFeature_raster (driver j) rows b \<noteq> None"
    and "\<And>rows f. CreateFeature_metadata (driver j) rows f"
    and "pfnProgress j = None"
    and "osRasterLayer j \<noteq> osMetadataLayer j"
    and "layers (hDS s) (osRasterLayer j) \<noteq> None"
    and "layers (hDS s) (osMetadataLayer j) \<noteq> None"
  shows "eErr (tile_body j bx by s) = CE_None \<and>
         layers (hDS (tile_body j bx by s)) (osRasterLayer j) \<noteq> None \<and>
         layers (hDS (tile_body j bx by s)) (osMetadataLayer j) \<noteq> None"
proof -
  let ?a = "mul32 bx (nBlockXSize j)" and ?b = "mul32 by (nBlockYSize j)"
  let ?c = "nReqSize (nXSize j) (nBlockXSize j) bx" and ?d = "nReqSize (nYSize j) (nBlockYSize j) by"
  obtain blob where e: "GDALCreateCopy j ?a ?b ?c ?d = Some blob"
    using assms(2) [of ?a ?b ?c ?d] by auto
  obtain rows where r: "layers (hDS s) (osRasterLayer j) = Some rows" using assms(7) by auto
  obtain fid where f: "CreateFeature_raster (driver j) rows blob = Some fid"
    using assms(3) [of rows blob] by auto
  obtain mrows where m: "layers (hDS s) (osMetadataLayer j) = Some mrows" using assms(8) by auto
  show ?thesis
    using assms(1,4,5,6) e r f m
    by (simp add: tile_body_def persist_metadata_def Let_def insert_raster_def insert_metadata_def)
qed

lemma fold_succeeds:
  assumes "\<And>a b c d. RasterIO (poSrcDS j) a b c d = CE_None"
    and "\<And>a b c d. GDALCreateCopy j a b c d \<noteq> None"
    and "\<And>rows b. CreateFeature_raster (driver j) rows b \<noteq> None"
    and "\<And>rows f. CreateFeature_metadata (driver j) rows f"
    and "pfnProgress j = None"
    and "osRasterLayer j \<noteq> osMetadataLayer j"
  shows "eErr s = CE_None \<Longrightarrow> layers (hDS s) (osRasterLayer j) \<noteq> None \<Longrightarrow>
         layers (hDS s) (osMetadataLayer j) \<noteq> None \<Longrightarrow>
         eErr (fold (block_step j) ps s) = CE_None"
proof (induction ps arbitrary: s)
  case Nil
  then show ?case by simp
next
  case (Cons p ps)
  from tile_body_succeeds [OF assms Cons.prems(2,3), of "snd p" "fst p"]
  show ?case using Cons.prems(1) Cons.IH [of "tile_body j (snd p) (fst p) s"]
    by (simp add: block_step_def)
qed

lemma run_loops_succeeds:
  assumes "\<And>a b c d. RasterIO (poSrcDS j) a b c d = CE_None"
    and "\<And>a b c d. GDALCreateCopy j a b c d \<noteq> None"
    and "\<And>rows b. CreateFeature_raster (driver j) rows b \<noteq> None"
    and "\<And>rows f. CreateFeature_metadata (driver j) rows f"
    and "pfnProgress j = None"
    and "osRasterLayer j \<noteq> osMetadataLayer j"
    and "layers hDS0 (osRasterLayer j) \<noteq> None"
    and "layers hDS0 (osMetadataLayer j) \<noteq> None"
  shows "eErr (run_loops j hDS0) = CE_None"
  unfolding run_loops_fold
  by (rule fold_succeeds [OF assms(1-6)]) (use assms(7,8) in \<open>simp_all add: sql_begin_def\<close>)

lemma scenario_600_blocks: "nXBlocks scenario_600 = 3" "nYBlocks scenario_600 = 3"
  by (simp_all add: nXBlocks_def nYBlocks_def scenario_600_def block_count_def div32_def
      sub32_def add32_def wrap32_def signed_divide_int_def)

lemma scenario_600_succeeds: "eErr (run_loops scenario_600 empty_tables) = CE_None"
  by (rule run_loops_succeeds)
     (simp_all add: scenario_600_def ok_source_def ok_driver_def empty_tables_def)

lemmas double_eval = dadd_def dmul_def ddiv_def round_double_def rne_def ilog2_def pow2_def
  bit_length.simps

lemmas int_eval = wrap32_def add32_def sub32_def mul32_def div32_def signed_divide_int_def

lemmas str_eval = STARTS_WITH_CI_def EQUAL_def toupper_def char_of_def bit_Suc_0_iff

lemmas store_eval = sql_create_table_def sql_add_geometry_column_def sql_update_srid_def
  sql_delete_from_def sql_insert_srs_def sql_begin_def sql_commit_def sql_rollback_def
  insert_raster_def insert_metadata_def GDALDatasetGetLayerByName_def ExecuteSQL_select_def
  wipe_existing_def

lemmas loop_eval = run_loops_fold blocks_def block_step_def nXBlocks_def nYBlocks_def
  nTotalBlocks_def block_count_def nReqSize_def tile_body_def persist_metadata_def
  metadata_feature_def rectangle_def upto.simps Let_def

lemmas top_eval = RasterliteCreateCopy_def ingest_def tile_loop_def RasterliteCreateTables_def
  RasterliteInsertSRID_def srs_fields_def analyze_arguments_def block_size_def clamp_block_def
  resolve_geotransform_def CSLFetchNameValueDef_def

lemmas demo_eval = demo_world_def demo_cpl_def ok_driver_def ok_source_def basename_of_def
  old_store_def orphan_store_def

lemma scenario_600_names:
  "osRasterLayer scenario_600 \<noteq> osMetadataLayer scenario_600"
  "layers empty_tables (osMetadataLayer scenario_600) = Some []"
  by (simp_all add: scenario_600_def empty_tables_def)

lemma scenario_600_dims:
  "0 < nXSize scenario_600" "0 < nBlockXSize scenario_600"
  "nXSize scenario_600 + nBlockXSize scenario_600 \<le> INT_MAX"
  "0 < nYSize scenario_600" "0 < nBlockYSize scenario_600"
  "nYSize scenario_600 + nBlockYSize scenario_600 \<le> INT_MAX"
  by (simp_all add: scenario_600_def INT_MAX_def)

lemma tile_body_class:
  assumes "\<And>a b c d. RasterIO (poSrcDS j) a b c d = CE_None \<or>
                      RasterIO (poSrcDS j) a b c d = CE_Failure"
  shows "eErr (tile_body j bx by s) = CE_None \<or> eErr (tile_body j bx by s) = CE_Failure"
  using assms [of "mul32 bx (nBlockXSize j)" "mul32 by (nBlockYSize j)"
      "nReqSize (nXSize j) (nBlockXSize j) bx" "nReqSize (nYSize j) (nBlockYSize j) by"]
  by (auto simp: tile_body_def persist_metadata_def Let_def split: option.splits)

lemma fold_class:
  assumes "\<And>a b c d. RasterIO (poSrcDS j) a b c d = CE_None \<or>
                      RasterIO (poSrcDS j) a b c d = CE_Failure"
  shows "eErr s = CE_None \<or> eErr s = CE_Failure \<Longrightarrow>
         eErr (fold (block_step j) ps s) = CE_None \<or>
         eErr (fold (block_step j) ps s) = CE_Failure"
proof (induction ps arbitrary: s)
  case Nil
  then show ?case by simp
next
  case (Cons p ps)
  have "eErr (block_step j p s) = CE_None \<or> eErr (block_step j p s) = CE_Failure"
    using Cons.prems tile_body_class [OF assms, of "snd p" "fst p" s]
    by (auto simp: block_step_def)
  from Cons.IH [OF this] show ?case by simp
qed

section \<open>The properties\<close>

text \<open>
  C1, at the input where it fails. The store \<open>old.sqlite\<close> holds the tables of an earlier
  run, and the read of the only block returns \<open>CE_Warning\<close>. The loops stop with that
  error class, the transaction is rolled back (the store is as it was), and the call
  returns the dataset that \<open>GDALOpen\<close> opens, not \<open>nullptr\<close>: line 705 tests
  \<open>eErr == CE_None\<close>, line 716 tests \<open>eErr == CE_Failure\<close>.
\<close>

theorem warning_read_returns_dataset:
  "fst (RasterliteCreateCopy demo_world ''old.sqlite,table=t''
          ((ok_source 1 1)\<lparr>RasterIO := (\<lambda>nXOff nYOff nXSize nYSize. CE_Warning)\<rparr>)
          Map.empty None) = Inr (GDALOpen ''old.sqlite,table=t'') \<and>
   snd (RasterliteCreateCopy demo_world ''old.sqlite,table=t''
          ((ok_source 1 1)\<lparr>RasterIO := (\<lambda>nXOff nYOff nXSize nYSize. CE_Warning)\<rparr>)
          Map.empty None) = Some old_store \<and>
   eErr (run_loops
           \<lparr>poSrcDS = (ok_source 1 1)\<lparr>RasterIO := (\<lambda>nXOff nYOff nXSize nYSize. CE_Warning)\<rparr>,
            driver = ok_driver, GDALCreateCopy = tile_codec demo_world, pfnProgress = None,
            nXSize = 1, nYSize = 1, nBlockXSize = 256, nBlockYSize = 256,
            adfGeoTransform = [0, 1, 0, 0, 0, - 1],
            osRasterLayer = ''t_rasters'', osMetadataLayer = ''t_metadata''\<rparr>
           old_store) = CE_Warning"
  by (simp add: top_eval loop_eval store_eval demo_eval str_eval int_eval)

text \<open>
  The transaction of the tile loop, for every run: the call returns \<open>nullptr\<close> exactly when
  the error class after the loops is \<open>CE_Failure\<close>; the store is committed as the loops
  left it when the class is \<open>CE_None\<close>, and otherwise rolled back to the tables it had at
  \<open>BEGIN\<close>; \<open>geometry_columns\<close> and \<open>spatial_ref_sys\<close> are not changed.
\<close>

theorem tile_loop_transaction:
  "(fst (tile_loop j pszFilename hDS0) = Inl TileLoopFailed \<longleftrightarrow>
      eErr (run_loops j hDS0) = CE_Failure) \<and>
   snd (tile_loop j pszFilename hDS0) =
     (if eErr (run_loops j hDS0) = CE_None
      then (hDS (run_loops j hDS0))\<lparr>journal := None\<rparr>
      else (hDS (run_loops j hDS0))\<lparr>layers := layers hDS0, journal := None\<rparr>) \<and>
   geometry_columns (snd (tile_loop j pszFilename hDS0)) = geometry_columns hDS0 \<and>
   spatial_ref_sys (snd (tile_loop j pszFilename hDS0)) = spatial_ref_sys hDS0 \<and>
   journal (snd (tile_loop j pszFilename hDS0)) = None"
  using run_loops_frame [of j hDS0]
  by (simp add: tile_loop_def Let_def sql_commit_def sql_rollback_def)

text \<open>
  When every read returns \<open>CE_None\<close> or \<open>CE_Failure\<close>, a run either commits and returns the
  reopened dataset, or rolls back to the tables it had at \<open>BEGIN\<close> and returns
  \<open>nullptr\<close>.
\<close>

theorem tile_loop_fails_iff_rolled_back:
  assumes "\<And>a b c d. RasterIO (poSrcDS j) a b c d = CE_None \<or>
                      RasterIO (poSrcDS j) a b c d = CE_Failure"
  shows "(if eErr (run_loops j hDS0) = CE_None
          then tile_loop j pszFilename hDS0 =
                 (Inr (GDALOpen pszFilename), (hDS (run_loops j hDS0))\<lparr>journal := None\<rparr>)
          else fst (tile_loop j pszFilename hDS0) = Inl TileLoopFailed \<and>
               layers (snd (tile_loop j pszFilename hDS0)) = layers hDS0 \<and>
               geometry_columns (snd (tile_loop j pszFilename hDS0)) = geometry_columns hDS0 \<and>
               spatial_ref_sys (snd (tile_loop j pszFilename hDS0)) = spatial_ref_sys hDS0)"
proof -
  have "eErr (run_loops j hDS0) = CE_None \<or> eErr (run_loops j hDS0) = CE_Failure"
    unfolding run_loops_fold by (rule fold_class [OF assms]) simp
  then show ?thesis
    using run_loops_frame [of j hDS0]
    by (auto simp: tile_loop_def Let_def sql_commit_def sql_rollback_def)
qed

text \<open>
  A run on the store of an earlier run whose reads fail in the third block column.
\<close>

theorem tile_loop_fails_iff_rolled_back_witness:
  "eErr (run_loops failing_read_job old_store) = CE_Failure \<and>
   fst (tile_loop failing_read_job ''old.sqlite,table=t'' old_store) = Inl TileLoopFailed \<and>
   layers (snd (tile_loop failing_read_job ''old.sqlite,table=t'' old_store)) = layers old_store"
proof -
  have a: "\<And>a b c d. RasterIO (poSrcDS failing_read_job) a b c d = CE_None \<or>
                      RasterIO (poSrcDS failing_read_job) a b c d = CE_Failure"
    by (simp add: failing_read_job_def scenario_600_def ok_source_def)
  have b: "eErr (run_loops failing_read_job old_store) = CE_Failure"
    by (simp add: failing_read_job_def scenario_600_def loop_eval store_eval demo_eval int_eval)
  show ?thesis
    using tile_loop_fails_iff_rolled_back [OF a, of old_store "''old.sqlite,table=t''"] b by simp
qed

text \<open>
  C2. A run whose every step succeeds leaves, after the rows the metadata table held,
  \<open>ceil(W / blockW) * ceil(H / blockH)\<close> rows; their \<open>tile_id\<close> values are \<open>0, 1, ..., N - 1\<close>,
  and row \<open>k\<close> is the feature of the block in column \<open>k mod nXBlocks\<close> of block row
  \<open>k div nXBlocks\<close>: block rows from top to bottom, each from left to right. The sizes are
  positive, and \<open>nSize + nBlockSize\<close> and the number of blocks are in the range of \<open>int\<close>,
  where the arithmetic of lines 556-557 does not overflow.
\<close>

theorem metadata_rows_row_major:
  assumes "0 < nXSize j" "0 < nBlockXSize j" "nXSize j + nBlockXSize j \<le> INT_MAX"
    and "0 < nYSize j" "0 < nBlockYSize j" "nYSize j + nBlockYSize j \<le> INT_MAX"
    and "nXBlocks j * nYBlocks j \<le> INT_MAX"
    and "osRasterLayer j \<noteq> osMetadataLayer j"
    and "layers hDS0 (osMetadataLayer j) = Some rows0"
    and "eErr (run_loops j hDS0) = CE_None"
  shows "\<exists>ms. layers (snd (tile_loop j pszFilename hDS0)) (osMetadataLayer j) =
                Some (rows0 @ map MetadataRow ms) \<and>
          int (length ms) =
            \<lceil>real_of_int (nXSize j) / real_of_int (nBlockXSize j)\<rceil> *
            \<lceil>real_of_int (nYSize j) / real_of_int (nBlockYSize j)\<rceil> \<and>
          map tile_id ms = [0..int (length ms) - 1] \<and>
          (\<forall>k<length ms. \<exists>f.
             ms ! k =
               metadata_feature j (int k mod nXBlocks j) (int k div nXBlocks j) f (int k))"
proof -
  from run_loops_nth [OF assms(8,9)] assms(10) obtain ms where
    ms: "layers (hDS (run_loops j hDS0)) (osMetadataLayer j) = Some (rows0 @ map MetadataRow ms)"
      "length ms = length (blocks j)"
      "\<forall>k<length ms. \<exists>f t.
         ms ! k = metadata_feature j (int k mod nXBlocks j) (int k div nXBlocks j) f t \<and>
         (int (length ms) \<le> INT_MAX + 1 \<longrightarrow> t = int k)"
    by blast
  have px: "0 < nXBlocks j" using block_count_pos [OF assms(1-3)] by (simp add: nXBlocks_def)
  have py: "0 < nYBlocks j" using block_count_pos [OF assms(4-6)] by (simp add: nYBlocks_def)
  have len: "int (length ms) = nXBlocks j * nYBlocks j"
    using ms(2) px py by (simp add: length_blocks)
  have small: "int (length ms) \<le> INT_MAX + 1" using len assms(7) by simp
  have nth: "\<exists>f. ms ! k =
      metadata_feature j (int k mod nXBlocks j) (int k div nXBlocks j) f (int k)"
    if "k < length ms" for k
    using ms(3) that small by blast
  have tid: "tile_id (ms ! k) = int k" if "k < length ms" for k
    using nth [OF that] by (auto simp: metadata_feature_simps)
  have ids: "map tile_id ms = [0..int (length ms) - 1]"
    by (rule nth_equalityI) (simp_all add: tid nth_upto)
  have cnt: "int (length ms) =
      \<lceil>real_of_int (nXSize j) / real_of_int (nBlockXSize j)\<rceil> *
      \<lceil>real_of_int (nYSize j) / real_of_int (nBlockYSize j)\<rceil>"
    using len block_count_ceiling [OF assms(1-3)] block_count_ceiling [OF assms(4-6)]
    by (simp add: nXBlocks_def nYBlocks_def)
  have fin: "layers (snd (tile_loop j pszFilename hDS0)) (osMetadataLayer j) =
      Some (rows0 @ map MetadataRow ms)"
    using ms(1) assms(10) by (simp add: tile_loop_committed sql_commit_def)
  show ?thesis using fin cnt ids nth by blast
qed

text \<open>
  The scenario of the spec: 600 by 600 pixels in blocks of 256 by 256 give nine tiles,
  numbered 0 to 8.
\<close>

theorem metadata_rows_row_major_witness:
  "eErr (run_loops scenario_600 empty_tables) = CE_None \<and>
   (\<exists>ms. layers (snd (tile_loop scenario_600 ''t.sqlite'' empty_tables)) ''t_metadata'' =
           Some (map MetadataRow ms) \<and>
         length ms = 9 \<and> map tile_id ms = [0, 1, 2, 3, 4, 5, 6, 7, 8])"
proof -
  have m: "layers empty_tables (osMetadataLayer scenario_600) = Some []"
    by (simp add: scenario_600_def empty_tables_def)
  have "\<exists>ms. layers (snd (tile_loop scenario_600 ''t.sqlite'' empty_tables))
             (osMetadataLayer scenario_600) = Some ([] @ map MetadataRow ms) \<and>
          int (length ms) =
            \<lceil>real_of_int (nXSize scenario_600) / real_of_int (nBlockXSize scenario_600)\<rceil> *
            \<lceil>real_of_int (nYSize scenario_600) / real_of_int (nBlockYSize scenario_600)\<rceil> \<and>
          map tile_id ms = [0..int (length ms) - 1] \<and>
          (\<forall>k<length ms. \<exists>f.
             ms ! k =
               metadata_feature scenario_600 (int k mod nXBlocks scenario_600)
                 (int k div nXBlocks scenario_600) f (int k))"
    by (rule metadata_rows_row_major [OF _ _ _ _ _ _ _ _ m scenario_600_succeeds])
       (simp_all add: scenario_600_blocks, simp_all add: scenario_600_def INT_MAX_def)
  then obtain ms where
    ms: "layers (snd (tile_loop scenario_600 ''t.sqlite'' empty_tables))
             (osMetadataLayer scenario_600) = Some ([] @ map MetadataRow ms)"
      "int (length ms) =
            \<lceil>real_of_int (nXSize scenario_600) / real_of_int (nBlockXSize scenario_600)\<rceil> *
            \<lceil>real_of_int (nYSize scenario_600) / real_of_int (nBlockYSize scenario_600)\<rceil>"
      "map tile_id ms = [0..int (length ms) - 1]"
    by blast
  have l: "length ms = 9" using ms(2) by (simp add: scenario_600_def)
  have t: "map tile_id ms = [0, 1, 2, 3, 4, 5, 6, 7, 8]"
    using ms(3) unfolding l by (simp add: upto.simps)
  have r: "layers (snd (tile_loop scenario_600 ''t.sqlite'' empty_tables)) ''t_metadata'' =
           Some (map MetadataRow ms)"
    using ms(1) by (simp add: scenario_600_def)
  show ?thesis
    by (intro conjI exI [of _ ms]) (rule scenario_600_succeeds r l t)+
qed







text \<open>
  C5. The raster table exists and the geometry column of the metadata table is bound to an
  SRID other than the one \<open>RasterliteInsertSRID\<close> returns for the new data. Without
  \<open>WIPE\<close>, \<open>RasterliteCreateTables\<close> returns \<open>nullptr\<close> with the error of line 285 and the
  ingestion fails with it; the tables, \<open>geometry_columns\<close> and the transaction state are as
  before the call. With \<open>WIPE\<close>, the bound SRID is updated in place and both tables are
  emptied.
\<close>

theorem srs_mismatch_rejected:
  assumes "layers hDS0 (osTableName @ ''_rasters'') = Some rasters0"
    and "geometry_columns hDS0 (osTableName @ ''_metadata'') = Some nExistingSRID"
    and "RasterliteInsertSRID (lib w) (sqlite_driver w) hDS0 (GetProjectionRef src) =
           (nSRSId, hDS1)"
    and "nExistingSRID \<noteq> nSRSId"
  shows
    "(if CPLTestBool (lib w) (CSLFetchNameValueDef papszOptions ''WIPE'' ''NO'') then
        RasterliteCreateTables (sqlite_driver w) hDS1 osTableName nSRSId True =
          (None,
           sql_delete_from (osTableName @ ''_metadata'')
             (sql_delete_from (osTableName @ ''_rasters'')
                (sql_update_srid (osTableName @ ''_metadata'') nSRSId hDS1))) \<and>
        geometry_columns
          (snd (RasterliteCreateTables (sqlite_driver w) hDS1 osTableName nSRSId True))
          (osTableName @ ''_metadata'') = Some nSRSId
      else
        RasterliteCreateTables (sqlite_driver w) hDS1 osTableName nSRSId False =
          (Some NotSameSRS, hDS1) \<and>
        ingest w pszFilename src papszOptions progress gt nBlockX nBlockY osTableName hDS0 =
          (Inl NotSameSRS, hDS1) \<and>
        layers hDS1 = layers hDS0 \<and> geometry_columns hDS1 = geometry_columns hDS0 \<and>
        journal hDS1 = journal hDS0)"
proof -
  note fr = RasterliteInsertSRID_frame [OF assms(3)]
  have l: "layers hDS1 (osTableName @ ''_rasters'') = Some rasters0"
    and g: "geometry_columns hDS1 (osTableName @ ''_metadata'') = Some nExistingSRID"
    using assms(1,2) fr by simp_all
  have reject: "RasterliteCreateTables (sqlite_driver w) hDS1 osTableName nSRSId False =
          (Some NotSameSRS, hDS1)"
    using l g assms(4)
    by (simp add: RasterliteCreateTables_def Let_def GDALDatasetGetLayerByName_def
        ExecuteSQL_select_def)
  have wipe: "RasterliteCreateTables (sqlite_driver w) hDS1 osTableName nSRSId True =
          (None,
           sql_delete_from (osTableName @ ''_metadata'')
             (sql_delete_from (osTableName @ ''_rasters'')
                (sql_update_srid (osTableName @ ''_metadata'') nSRSId hDS1)))"
    using l g assms(4)
    by (simp add: RasterliteCreateTables_def Let_def GDALDatasetGetLayerByName_def
        ExecuteSQL_select_def wipe_existing_def)
  have gc: "geometry_columns
          (sql_delete_from (osTableName @ ''_metadata'')
             (sql_delete_from (osTableName @ ''_rasters'')
                (sql_update_srid (osTableName @ ''_metadata'') nSRSId hDS1)))
          (osTableName @ ''_metadata'') = Some nSRSId"
    using g by (simp add: sql_delete_from_def sql_update_srid_def split: option.splits)
  show ?thesis
  proof (cases "CPLTestBool (lib w) (CSLFetchNameValueDef papszOptions ''WIPE'' ''NO'')")
    case True
    then show ?thesis using wipe gc by simp
  next
    case False
    have "ingest w pszFilename src papszOptions progress gt nBlockX nBlockY osTableName hDS0 =
          (Inl NotSameSRS, hDS1)"
      using assms(3) False reject by (simp add: ingest_def)
    then show ?thesis using False reject fr by simp
  qed
qed

text \<open>
  The store of an earlier run bound to \<open>-1\<close>, and new data in EPSG:4326.
\<close>

theorem srs_mismatch_rejected_witness:
  "ingest demo_world ''old.sqlite,table=t''
     ((ok_source 600 600)\<lparr>GetProjectionRef := Some ''EPSG:4326''\<rparr>)
     Map.empty None [0, 1, 0, 0, 0, - 1] 256 256 ''t'' old_store =
     (Inl NotSameSRS, old_store) \<and>
   geometry_columns
     (snd (RasterliteCreateTables ok_driver old_store ''t'' 4326 True)) ''t_metadata'' =
     Some 4326"
proof -
  have a: "layers old_store (''t'' @ ''_rasters'') = Some [RasterRow \<lparr>raster_id = 1, raster = []\<rparr>]"
    by (simp add: old_store_def)
  have b: "geometry_columns old_store (''t'' @ ''_metadata'') = Some (- 1)"
    by (simp add: old_store_def)
  have c: "RasterliteInsertSRID (lib demo_world) (sqlite_driver demo_world) old_store
             (GetProjectionRef ((ok_source 600 600)\<lparr>GetProjectionRef := Some ''EPSG:4326''\<rparr>)) =
           (4326, old_store)"
    by (simp add: RasterliteInsertSRID_def srs_fields_def ExecuteSQL_select_def demo_eval)
  have d: "(- 1 :: int) \<noteq> 4326" by simp
  have w: "\<not> CPLTestBool (lib demo_world) (CSLFetchNameValueDef Map.empty ''WIPE'' ''NO'')"
    by (simp add: CSLFetchNameValueDef_def demo_world_def demo_cpl_def str_eval)
  have y: "CPLTestBool (lib demo_world)
             (CSLFetchNameValueDef [''WIPE'' \<mapsto> ''YES''] ''WIPE'' ''NO'')"
    by (simp add: CSLFetchNameValueDef_def demo_world_def demo_cpl_def str_eval)
  have s: "sqlite_driver demo_world = ok_driver" by (simp add: demo_world_def)
  show ?thesis
    using srs_mismatch_rejected [OF a b c d, of Map.empty "''old.sqlite,table=t''" None "[0, 1, 0, 0, 0, - 1]"
        256 256]
      srs_mismatch_rejected [OF a b c d, of "[''WIPE'' \<mapsto> ''YES'']" "''old.sqlite,table=t''" None
        "[0, 1, 0, 0, 0, - 1]" 256 256]
      w y
    by (simp add: s store_eval old_store_def)
qed

text \<open>
  C6 fails for a source whose vertical coefficient is positive. The geotransform
  \<open>(0, 1, 0, 0, 0, 1)\<close> has no rotation terms and is accepted; the row the run commits has
  \<open>pixel_y_size = -1\<close>, which is neither the absolute value of the coefficient nor
  positive.
\<close>

theorem pixel_y_size_south_up_counterexample:
  "resolve_geotransform (CE_None, [0, 1, 0, 0, 0, 1]) = Inr [0, 1, 0, 0, 0, 1] \<and>
   fst (RasterliteCreateCopy demo_world ''new.sqlite''
          ((ok_source 1 1)\<lparr>GetGeoTransform := (CE_None, [0, 1, 0, 0, 0, 1])\<rparr>)
          [''TILED'' \<mapsto> ''NO''] None) = Inr (GDALOpen ''new.sqlite'') \<and>
   layers (the (snd (RasterliteCreateCopy demo_world ''new.sqlite''
          ((ok_source 1 1)\<lparr>GetGeoTransform := (CE_None, [0, 1, 0, 0, 0, 1])\<rparr>)
          [''TILED'' \<mapsto> ''NO''] None))) ''new_metadata'' =
     Some [MetadataRow
             \<lparr>row_id = 1, source_name = ''src.tif'', tile_id = 0, width = 1, height = 1,
              pixel_x_size = 1, pixel_y_size = - 1,
              geometry = [(0, 1), (0, 0), (1, 0), (1, 1), (0, 1)]\<rparr>] \<and>
   (- 1 :: real) \<noteq> \<bar>1\<bar>"
  by (simp add: top_eval loop_eval store_eval demo_eval str_eval int_eval double_eval)

text \<open>
  C6 as the code has it. The stored \<open>pixel_y_size\<close> of every inserted metadata row is the
  negation of coefficient 5 of the geotransform (line 669); it is the absolute value exactly
  when the coefficient is not positive, and it is positive exactly when the coefficient is
  negative.
\<close>

theorem pixel_y_size_negated:
  assumes "osRasterLayer j \<noteq> osMetadataLayer j"
    and "layers hDS0 (osMetadataLayer j) = Some rows0"
  shows "\<exists>ms. layers (hDS (run_loops j hDS0)) (osMetadataLayer j) =
                Some (rows0 @ map MetadataRow ms) \<and>
          (\<forall>r\<in>set ms. pixel_y_size r = - (adfGeoTransform j ! 5) \<and>
                       (pixel_y_size r = \<bar>adfGeoTransform j ! 5\<bar> \<longleftrightarrow>
                          adfGeoTransform j ! 5 \<le> 0) \<and>
                       (0 < pixel_y_size r \<longleftrightarrow> adfGeoTransform j ! 5 < 0))"
proof -
  from run_loops_rows [OF assms] obtain fs where
    fs: "layers (hDS (run_loops j hDS0)) (osMetadataLayer j) =
         Some (rows0 @ map MetadataRow (feature_rows j 0 (blocks j) fs))"
    by blast
  have "pixel_y_size r = - (adfGeoTransform j ! 5) \<and>
        (pixel_y_size r = \<bar>adfGeoTransform j ! 5\<bar> \<longleftrightarrow> adfGeoTransform j ! 5 \<le> 0) \<and>
        (0 < pixel_y_size r \<longleftrightarrow> adfGeoTransform j ! 5 < 0)"
    if "r \<in> set (feature_rows j 0 (blocks j) fs)" for r
    using feature_rows_set [OF that] by (auto simp: metadata_feature_simps)
  then show ?thesis using fs by blast
qed

text \<open>
  The 600 by 600 scenario, whose coefficient is \<open>-1\<close>.
\<close>

theorem pixel_y_size_negated_witness:
  "adfGeoTransform scenario_600 ! 5 = - 1 \<and>
   (\<exists>ms. layers (hDS (run_loops scenario_600 empty_tables)) (osMetadataLayer scenario_600) =
           Some ([] @ map MetadataRow ms) \<and>
         (\<forall>r\<in>set ms. pixel_y_size r = - (adfGeoTransform scenario_600 ! 5) \<and>
                      (pixel_y_size r = \<bar>adfGeoTransform scenario_600 ! 5\<bar> \<longleftrightarrow>
                         adfGeoTransform scenario_600 ! 5 \<le> 0) \<and>
                      (0 < pixel_y_size r \<longleftrightarrow> adfGeoTransform scenario_600 ! 5 < 0)))"
  using pixel_y_size_negated [OF scenario_600_names] by (simp add: scenario_600_def)

text \<open>
  C7. Every metadata row the loops insert has a width of at most \<open>blockW\<close> and a height of
  at most \<open>blockH\<close>. The width is \<open>blockW\<close> in every block column but the last, where it is
  \<open>W mod blockW\<close>, or \<open>blockW\<close> when that is zero; the same holds for the height and the
  last block row. The sizes are positive and \<open>nSize + nBlockSize\<close> is in the range of
  \<open>int\<close>.
\<close>

theorem tile_extent_clipped:
  assumes "0 < nXSize j" "0 < nBlockXSize j" "nXSize j + nBlockXSize j \<le> INT_MAX"
    and "0 < nYSize j" "0 < nBlockYSize j" "nYSize j + nBlockYSize j \<le> INT_MAX"
    and "osRasterLayer j \<noteq> osMetadataLayer j"
    and "layers hDS0 (osMetadataLayer j) = Some rows0"
  shows "\<exists>ms. layers (hDS (run_loops j hDS0)) (osMetadataLayer j) =
                Some (rows0 @ map MetadataRow ms) \<and>
          (\<forall>k<length ms.
             (\<exists>f t. ms ! k =
                metadata_feature j (int k mod nXBlocks j) (int k div nXBlocks j) f t) \<and>
             width (ms ! k) \<le> nBlockXSize j \<and> height (ms ! k) \<le> nBlockYSize j \<and>
             (int k mod nXBlocks j < nXBlocks j - 1 \<longrightarrow> width (ms ! k) = nBlockXSize j) \<and>
             (int k mod nXBlocks j = nXBlocks j - 1 \<longrightarrow>
                width (ms ! k) =
                  (if nXSize j mod nBlockXSize j = 0 then nBlockXSize j
                   else nXSize j mod nBlockXSize j)) \<and>
             (int k div nXBlocks j < nYBlocks j - 1 \<longrightarrow> height (ms ! k) = nBlockYSize j) \<and>
             (int k div nXBlocks j = nYBlocks j - 1 \<longrightarrow>
                height (ms ! k) =
                  (if nYSize j mod nBlockYSize j = 0 then nBlockYSize j
                   else nYSize j mod nBlockYSize j)))"
proof -
  from run_loops_nth [OF assms(7,8)] obtain ms where
    ms: "layers (hDS (run_loops j hDS0)) (osMetadataLayer j) = Some (rows0 @ map MetadataRow ms)"
      "length ms \<le> length (blocks j)"
      "\<forall>k<length ms. \<exists>f t.
         ms ! k = metadata_feature j (int k mod nXBlocks j) (int k div nXBlocks j) f t \<and>
         (int (length ms) \<le> INT_MAX + 1 \<longrightarrow> t = int k)"
    by blast
  have "(\<exists>f t. ms ! k =
                metadata_feature j (int k mod nXBlocks j) (int k div nXBlocks j) f t) \<and>
             width (ms ! k) \<le> nBlockXSize j \<and> height (ms ! k) \<le> nBlockYSize j \<and>
             (int k mod nXBlocks j < nXBlocks j - 1 \<longrightarrow> width (ms ! k) = nBlockXSize j) \<and>
             (int k mod nXBlocks j = nXBlocks j - 1 \<longrightarrow>
                width (ms ! k) =
                  (if nXSize j mod nBlockXSize j = 0 then nBlockXSize j
                   else nXSize j mod nBlockXSize j)) \<and>
             (int k div nXBlocks j < nYBlocks j - 1 \<longrightarrow> height (ms ! k) = nBlockYSize j) \<and>
             (int k div nXBlocks j = nYBlocks j - 1 \<longrightarrow>
                height (ms ! k) =
                  (if nYSize j mod nBlockYSize j = 0 then nBlockYSize j
                   else nYSize j mod nBlockYSize j))" if k: "k < length ms" for k
  proof -
    let ?bx = "int k mod nXBlocks j" and ?by = "int k div nXBlocks j"
    from ms(3) k obtain f t where r: "ms ! k = metadata_feature j ?bx ?by f t" by blast
    have kb: "k < length (blocks j)" using k ms(2) by simp
    note rg = block_index_range [OF kb]
    have bxr: "?bx < block_count (nXSize j) (nBlockXSize j)" using rg(2) by (simp add: nXBlocks_def)
    have byr: "?by < block_count (nYSize j) (nBlockYSize j)" using rg(4) by (simp add: nYBlocks_def)
    have w: "width (ms ! k) = nReqSize (nXSize j) (nBlockXSize j) ?bx"
      and h: "height (ms ! k) = nReqSize (nYSize j) (nBlockYSize j) ?by"
      by (simp_all add: r metadata_feature_simps)
    have 1: "width (ms ! k) \<le> nBlockXSize j"
      unfolding w using nReqSize_le(2) [OF assms(1-3) rg(1) bxr] .
    have 2: "height (ms ! k) \<le> nBlockYSize j"
      unfolding h using nReqSize_le(2) [OF assms(4-6) rg(3) byr] .
    have 3: "width (ms ! k) = nBlockXSize j" if "?bx < nXBlocks j - 1"
      unfolding w using that nReqSize_inner [OF assms(1-3) rg(1)] by (simp add: nXBlocks_def)
    have 4: "height (ms ! k) = nBlockYSize j" if "?by < nYBlocks j - 1"
      unfolding h using that nReqSize_inner [OF assms(4-6) rg(3)] by (simp add: nYBlocks_def)
    have 5: "width (ms ! k) =
        (if nXSize j mod nBlockXSize j = 0 then nBlockXSize j else nXSize j mod nBlockXSize j)"
      if "?bx = nXBlocks j - 1"
      unfolding w using that nReqSize_last [OF assms(1-3)] by (simp add: nXBlocks_def)
    have 6: "height (ms ! k) =
        (if nYSize j mod nBlockYSize j = 0 then nBlockYSize j else nYSize j mod nBlockYSize j)"
      if "?by = nYBlocks j - 1"
      unfolding h using that nReqSize_last [OF assms(4-6)] by (simp add: nYBlocks_def)
    show ?thesis using r 1 2 3 4 5 6 by blast
  qed
  then show ?thesis using ms(1) by blast
qed

text \<open>
  The 600 by 600 scenario: three block columns and rows, the last of 88 pixels.
\<close>

theorem tile_extent_clipped_witness:
  "nXBlocks scenario_600 = 3 \<and> nYBlocks scenario_600 = 3 \<and>
   nXSize scenario_600 mod nBlockXSize scenario_600 = 88 \<and>
   nYSize scenario_600 mod nBlockYSize scenario_600 = 88 \<and>
   (\<exists>ms. layers (hDS (run_loops scenario_600 empty_tables)) (osMetadataLayer scenario_600) =
                Some ([] @ map MetadataRow ms) \<and>
          (\<forall>k<length ms.
             (\<exists>f t. ms ! k =
                metadata_feature scenario_600 (int k mod nXBlocks scenario_600)
                  (int k div nXBlocks scenario_600) f t) \<and>
             width (ms ! k) \<le> nBlockXSize scenario_600 \<and>
             height (ms ! k) \<le> nBlockYSize scenario_600 \<and>
             (int k mod nXBlocks scenario_600 < nXBlocks scenario_600 - 1 \<longrightarrow>
                width (ms ! k) = nBlockXSize scenario_600) \<and>
             (int k mod nXBlocks scenario_600 = nXBlocks scenario_600 - 1 \<longrightarrow>
                width (ms ! k) =
                  (if nXSize scenario_600 mod nBlockXSize scenario_600 = 0
                   then nBlockXSize scenario_600
                   else nXSize scenario_600 mod nBlockXSize scenario_600)) \<and>
             (int k div nXBlocks scenario_600 < nYBlocks scenario_600 - 1 \<longrightarrow>
                height (ms ! k) = nBlockYSize scenario_600) \<and>
             (int k div nXBlocks scenario_600 = nYBlocks scenario_600 - 1 \<longrightarrow>
                height (ms ! k) =
                  (if nYSize scenario_600 mod nBlockYSize scenario_600 = 0
                   then nBlockYSize scenario_600
                   else nYSize scenario_600 mod nBlockYSize scenario_600))))"
proof -
  have "nXSize scenario_600 mod nBlockXSize scenario_600 = 88"
    "nYSize scenario_600 mod nBlockYSize scenario_600 = 88"
    by (simp_all add: scenario_600_def)
  then show ?thesis
    using tile_extent_clipped [OF scenario_600_dims scenario_600_names] scenario_600_blocks by blast
qed

text \<open>
  C8. When \<open>CPLTestBool\<close> holds of the \<open>TILED\<close> option (an absent option reads \<open>YES\<close>),
  each block dimension is \<open>atoi\<close> of its option (an absent option reads \<open>256\<close>), raised to
  64 and lowered to 4096. Otherwise the block dimensions are those of the raster, and for a
  raster of positive sizes with \<open>nSize + nSize\<close> in the range of \<open>int\<close> the loops run the
  body once, for block \<open>(0, 0)\<close>, whose extent is the whole raster.
\<close>

theorem block_size_option:
  assumes "(nBlockXSize j, nBlockYSize j) = block_size L papszOptions (nXSize j) (nYSize j)"
  shows
    "(if CPLTestBool L (CSLFetchNameValueDef papszOptions ''TILED'' ''YES'') then
        nBlockXSize j =
          max 64 (min 4096 (atoi L (CSLFetchNameValueDef papszOptions ''BLOCKXSIZE'' ''256''))) \<and>
        nBlockYSize j =
          max 64 (min 4096 (atoi L (CSLFetchNameValueDef papszOptions ''BLOCKYSIZE'' ''256''))) \<and>
        (papszOptions ''BLOCKXSIZE'' = None \<and> atoi L ''256'' = 256 \<longrightarrow> nBlockXSize j = 256) \<and>
        (papszOptions ''BLOCKYSIZE'' = None \<and> atoi L ''256'' = 256 \<longrightarrow> nBlockYSize j = 256)
      else
        nBlockXSize j = nXSize j \<and> nBlockYSize j = nYSize j \<and>
        (0 < nXSize j \<and> nXSize j + nXSize j \<le> INT_MAX \<and>
         0 < nYSize j \<and> nYSize j + nYSize j \<le> INT_MAX \<longrightarrow>
           nXBlocks j = 1 \<and> nYBlocks j = 1 \<and>
           run_loops j hDS0 =
             tile_body j 0 0 \<lparr>hDS = sql_begin hDS0, nTileId = 0, nBlocks = 0, eErr = CE_None\<rparr> \<and>
           nReqSize (nXSize j) (nBlockXSize j) 0 = nXSize j \<and>
           nReqSize (nYSize j) (nBlockYSize j) 0 = nYSize j)) \<and>
     (papszOptions ''TILED'' = None \<longrightarrow>
        CPLTestBool L (CSLFetchNameValueDef papszOptions ''TILED'' ''YES'') = CPLTestBool L ''YES'')"
proof (cases "CPLTestBool L (CSLFetchNameValueDef papszOptions ''TILED'' ''YES'')")
  case True
  then show ?thesis using assms
    by (auto simp: block_size_def clamp_block_def CSLFetchNameValueDef_def)
next
  case False
  then have b: "nBlockXSize j = nXSize j" "nBlockYSize j = nYSize j"
    using assms by (simp_all add: block_size_def)
  have "nXBlocks j = 1 \<and> nYBlocks j = 1 \<and>
        run_loops j hDS0 =
          tile_body j 0 0 \<lparr>hDS = sql_begin hDS0, nTileId = 0, nBlocks = 0, eErr = CE_None\<rparr> \<and>
        nReqSize (nXSize j) (nBlockXSize j) 0 = nXSize j \<and>
        nReqSize (nYSize j) (nBlockYSize j) 0 = nYSize j"
    if d: "0 < nXSize j \<and> nXSize j + nXSize j \<le> INT_MAX \<and>
           0 < nYSize j \<and> nYSize j + nYSize j \<le> INT_MAX"
  proof -
    have x: "nXBlocks j = 1" using d b by (simp add: nXBlocks_def block_count_whole)
    have y: "nYBlocks j = 1" using d b by (simp add: nYBlocks_def block_count_whole)
    show ?thesis using x y run_loops_single [OF x y] d b by (simp add: nReqSize_whole)
  qed
  then show ?thesis using False b by (simp add: CSLFetchNameValueDef_def)
qed

text \<open>
  The defaults, two values outside the interval, and an untiled 600 by 600 raster.
\<close>

theorem block_size_option_witness:
  "block_size demo_cpl Map.empty 600 600 = (256, 256) \<and>
   block_size demo_cpl [''BLOCKXSIZE'' \<mapsto> ''8192'', ''BLOCKYSIZE'' \<mapsto> ''16''] 600 600 =
     (4096, 64) \<and>
   block_size demo_cpl [''TILED'' \<mapsto> ''NO''] 600 600 = (600, 600) \<and>
   nXBlocks whole_600 = 1 \<and> nYBlocks whole_600 = 1 \<and>
   run_loops whole_600 empty_tables =
     tile_body whole_600 0 0
       \<lparr>hDS = sql_begin empty_tables, nTileId = 0, nBlocks = 0, eErr = CE_None\<rparr>"
proof -
  have a: "(nBlockXSize scenario_600, nBlockYSize scenario_600) =
           block_size demo_cpl Map.empty (nXSize scenario_600) (nYSize scenario_600)"
    by (simp add: scenario_600_def block_size_def clamp_block_def CSLFetchNameValueDef_def
        demo_cpl_def str_eval)
  have b: "(nBlockXSize whole_600, nBlockYSize whole_600) =
           block_size demo_cpl [''TILED'' \<mapsto> ''NO''] (nXSize whole_600) (nYSize whole_600)"
    by (simp add: whole_600_def scenario_600_def block_size_def clamp_block_def
        CSLFetchNameValueDef_def demo_cpl_def str_eval)
  have c: "block_size demo_cpl [''BLOCKXSIZE'' \<mapsto> ''8192'', ''BLOCKYSIZE'' \<mapsto> ''16''] 600 600 =
     (4096, 64)"
    by (simp add: block_size_def clamp_block_def CSLFetchNameValueDef_def demo_cpl_def str_eval)
  show ?thesis
    using block_size_option [OF a, of empty_tables] block_size_option [OF b, of empty_tables] c
    by (simp add: whole_600_def scenario_600_def CSLFetchNameValueDef_def demo_cpl_def str_eval
        INT_MAX_def block_size_def clamp_block_def)
qed

text \<open>
  C9. The first token of the specifier names the store, and no later token starts with
  \<open>table=\<close>. When a file of that name exists, the analysis fails with the error of line
  437 and the call fails without opening a store; it fails with that error when the checks
  before the analysis pass. When no file of that name exists, the table name is the base
  name of the store path.
\<close>

theorem ambiguous_target:
  assumes "CSLTokenizeStringComplex (lib w)
             (if STARTS_WITH_CI pszFilename ''RASTERLITE:'' then drop 11 pszFilename
              else pszFilename) = osDBName # rest"
    and "\<forall>t\<in>set rest. \<not> STARTS_WITH_CI t ''table=''"
  shows "(if VSIStat (lib w) osDBName then
            analyze_arguments (lib w) pszFilename = Inl ExplicitTableNameRequired \<and>
            isl (fst (RasterliteCreateCopy w pszFilename src papszOptions progress)) \<and>
            snd (RasterliteCreateCopy w pszFilename src papszOptions progress) = None \<and>
            (GetRasterCount src \<noteq> 0 \<and>
             \<not> EQUAL (CSLFetchNameValueDef papszOptions ''DRIVER'' ''GTiff'') ''MEM'' \<and>
             \<not> EQUAL (CSLFetchNameValueDef papszOptions ''DRIVER'' ''GTiff'') ''VRT'' \<and>
             GDALGetDriverByName (lib w) (CSLFetchNameValueDef papszOptions ''DRIVER'' ''GTiff'') \<and>
             GDALGetDriverByName (lib w) ''MEM'' \<and>
             \<not> isl (resolve_geotransform (GetGeoTransform src)) \<longrightarrow>
               RasterliteCreateCopy w pszFilename src papszOptions progress =
                 (Inl ExplicitTableNameRequired, None))
          else
            analyze_arguments (lib w) pszFilename =
              Inr (osDBName, CPLGetBasenameSafe (lib w) osDBName, False))"
proof -
  have t: "table_tokens rest [] = []" using assms(2) by (rule table_tokens_none)
  show ?thesis
  proof (cases "VSIStat (lib w) osDBName")
    case True
    have a: "analyze_arguments (lib w) pszFilename = Inl ExplicitTableNameRequired"
      using assms(1) t True by (simp add: analyze_arguments_def Let_def)
    have "isl (fst (RasterliteCreateCopy w pszFilename src papszOptions progress)) \<and>
          snd (RasterliteCreateCopy w pszFilename src papszOptions progress) = None"
      using a by (simp add: RasterliteCreateCopy_def split: sum.splits prod.splits)
    moreover have "RasterliteCreateCopy w pszFilename src papszOptions progress =
                 (Inl ExplicitTableNameRequired, None)"
      if "GetRasterCount src \<noteq> 0 \<and>
             \<not> EQUAL (CSLFetchNameValueDef papszOptions ''DRIVER'' ''GTiff'') ''MEM'' \<and>
             \<not> EQUAL (CSLFetchNameValueDef papszOptions ''DRIVER'' ''GTiff'') ''VRT'' \<and>
             GDALGetDriverByName (lib w) (CSLFetchNameValueDef papszOptions ''DRIVER'' ''GTiff'') \<and>
             GDALGetDriverByName (lib w) ''MEM'' \<and>
             \<not> isl (resolve_geotransform (GetGeoTransform src))"
      using that a by (auto simp: RasterliteCreateCopy_def split: sum.splits prod.splits)
    ultimately show ?thesis using True a by simp
  next
    case False
    then show ?thesis using assms(1) t by (simp add: analyze_arguments_def Let_def)
  qed
qed

text \<open>
  An existing store without a table name, with and without the scheme prefix and an
  unknown option, and a new store.
\<close>

theorem ambiguous_target_witness:
  "analyze_arguments demo_cpl ''old.sqlite'' = Inl ExplicitTableNameRequired \<and>
   RasterliteCreateCopy demo_world ''RASTERLITE:old.sqlite,mode=fast'' (ok_source 600 600)
     Map.empty None = (Inl ExplicitTableNameRequired, None) \<and>
   analyze_arguments demo_cpl ''dir/new.sqlite'' = Inr (''dir/new.sqlite'', ''new'', False)"
proof -
  have l: "lib demo_world = demo_cpl" by (simp add: demo_world_def)
  have a: "CSLTokenizeStringComplex (lib demo_world)
            (if STARTS_WITH_CI ''old.sqlite'' ''RASTERLITE:'' then drop 11 ''old.sqlite''
             else ''old.sqlite'') = ''old.sqlite'' # []"
    by (simp add: demo_eval str_eval)
  have b: "CSLTokenizeStringComplex (lib demo_world)
            (if STARTS_WITH_CI ''RASTERLITE:old.sqlite,mode=fast'' ''RASTERLITE:''
             then drop 11 ''RASTERLITE:old.sqlite,mode=fast''
             else ''RASTERLITE:old.sqlite,mode=fast'') = ''old.sqlite'' # [''mode=fast'']"
    by (simp add: demo_eval str_eval)
  have c: "CSLTokenizeStringComplex (lib demo_world)
            (if STARTS_WITH_CI ''dir/new.sqlite'' ''RASTERLITE:'' then drop 11 ''dir/new.sqlite''
             else ''dir/new.sqlite'') = ''dir/new.sqlite'' # []"
    by (simp add: demo_eval str_eval)
  have n: "\<forall>t\<in>set [''mode=fast'']. \<not> STARTS_WITH_CI t ''table=''"
    by (simp add: str_eval)
  have e: "\<forall>t\<in>set ([] :: string list). \<not> STARTS_WITH_CI t ''table=''" by simp
  show ?thesis
    using ambiguous_target [OF a e, of "ok_source 600 600" Map.empty None]
      ambiguous_target [OF b n, of "ok_source 600 600" Map.empty None]
      ambiguous_target [OF c e, of "ok_source 600 600" Map.empty None]
    by (simp add: l demo_cpl_def ok_source_def basename_of_def resolve_geotransform_def
        CSLFetchNameValueDef_def str_eval)
qed




end
